theory Spec2Isabelle
  imports Main "HOL-Library.Word"
begin

section \<open>External collaborators\<close>

text \<open>
  \<^verbatim>\<open>H5.c\<close> drives the subsystems of the library through their \<^verbatim>\<open>init\<close> and
  \<^verbatim>\<open>term_package\<close> entry points, calls user callbacks, and reads the process
  environment.  None of that code is part of \<^verbatim>\<open>H5.c\<close>; it is a parameter of the
  model.  The collaborators share one state of an arbitrary type \<open>'s\<close>, which every
  external call may read and change.

  The macro \<^verbatim>\<open>DOWN(F)\<close> calls \<^verbatim>\<open>H5##F##_term_package()\<close>; the packages are
  named by what the macro is applied to.
\<close>

datatype H5_pkg =
    H5ES | H5L
  | H5A_top | H5D_top | H5G_top | H5M_top | H5S_top | H5T_top
  | H5F | H5P
  | H5A | H5D | H5G | H5M | H5S | H5T
  | H5AC | H5Z | H5FD | H5VL
  | H5PL | H5E | H5I | H5SL | H5FL | H5CX

text \<open>The stringification \<^verbatim>\<open>#F\<close> of the macro argument.\<close>

fun pkg_str :: "H5_pkg \<Rightarrow> string" where
  "pkg_str H5ES = ''ES''"
| "pkg_str H5L = ''L''"
| "pkg_str H5A_top = ''A_top''"
| "pkg_str H5D_top = ''D_top''"
| "pkg_str H5G_top = ''G_top''"
| "pkg_str H5M_top = ''M_top''"
| "pkg_str H5S_top = ''S_top''"
| "pkg_str H5T_top = ''T_top''"
| "pkg_str H5F = ''F''"
| "pkg_str H5P = ''P''"
| "pkg_str H5A = ''A''"
| "pkg_str H5D = ''D''"
| "pkg_str H5G = ''G''"
| "pkg_str H5M = ''M''"
| "pkg_str H5S = ''S''"
| "pkg_str H5T = ''T''"
| "pkg_str H5AC = ''AC''"
| "pkg_str H5Z = ''Z''"
| "pkg_str H5FD = ''FD''"
| "pkg_str H5VL = ''VL''"
| "pkg_str H5PL = ''PL''"
| "pkg_str H5E = ''E''"
| "pkg_str H5I = ''I''"
| "pkg_str H5SL = ''SL''"
| "pkg_str H5FL = ''FL''"
| "pkg_str H5CX = ''CX''"

text \<open>The interface initialisers called by \<^verbatim>\<open>H5_init_library\<close>, in the order of the calls.\<close>

datatype init_fn =
    H5E_init | H5FD_init | H5VL_init_phase1 | H5P_init_phase1 | H5L_init | H5O_init
  | H5FS_init | H5S_init | H5T_init | H5P_init_phase2 | H5VL_init_phase2

type_synonym herr_t = int

definition SUCCEED :: herr_t where
  "SUCCEED = 0"

definition FAIL :: herr_t where
  "FAIL = - 1"

text \<open>
  The environment: the external functions, the process environment variables and the
  build configuration (preprocessor symbols and the version constants of
  \<^verbatim>\<open>H5public.h\<close>, which are not part of \<^verbatim>\<open>H5.c\<close>).

  \<^item> \<open>term_package F\<close> is \<^verbatim>\<open>H5F_term_package()\<close>: it returns an \<^verbatim>\<open>int\<close>.
  \<^item> \<open>init_call f\<close> is the initialiser \<open>f\<close>; a negative result is a failure.
  \<open>user_cb func ctx\<close> is the call \<^verbatim>\<open>(*func)(ctx)\<close> of a registered callback.
  \<^item> \<open>auto_func\<close> tells whether \<^verbatim>\<open>H5E_get_default_auto_func\<close> yields a non-null
    function, that is, whether the user wants error output.
  \<^item> \<open>H5FL_MALLOC\<close>, \<open>H5MM_malloc\<close>, \<open>HDfdopen\<close> tell whether the allocation
    or the \<^verbatim>\<open>fdopen\<close> succeeds.
  \<^item> \<open>mpi_attach\<close> is the block under \<^verbatim>\<open>H5_HAVE_PARALLEL\<close> in
    \<^verbatim>\<open>H5_init_library\<close>, which attaches the termination routine to
    \<^verbatim>\<open>MPI_COMM_SELF\<close>; \<open>False\<close> is the failure of one of its MPI calls.
\<close>

record 's env =
  term_package :: "H5_pkg \<Rightarrow> 's \<Rightarrow> int \<times> 's"
  init_call :: "init_fn \<Rightarrow> 's \<Rightarrow> herr_t \<times> 's"
  user_cb :: "nat \<Rightarrow> nat \<Rightarrow> 's \<Rightarrow> 's"
  auto_func :: "'s \<Rightarrow> bool"
  H5FL_MALLOC :: "'s \<Rightarrow> bool \<times> 's"
  H5MM_malloc :: "'s \<Rightarrow> bool \<times> 's"
  HDfdopen :: "int \<Rightarrow> 's \<Rightarrow> bool \<times> 's"
  mpi_attach :: "'s \<Rightarrow> bool \<times> 's"
  getenv :: "string \<Rightarrow> string option"
  NDEBUG :: bool
  H5_HAVE_PARALLEL :: bool
  H5_HAVE_THREADSAFE_API :: bool
  H5_VERS_MAJOR :: nat
  H5_VERS_MINOR :: nat
  H5_VERS_RELEASE :: nat
  H5_VERS_SUBRELEASE :: string
  H5_VERS_INFO :: string
  H5build_settings :: string

section \<open>The shutdown loop of \<^verbatim>\<open>H5_term_library\<close>\<close>

text \<open>
  The locals of \<^verbatim>\<open>H5_term_library\<close> that the loop uses: \<^verbatim>\<open>pending\<close>, the buffer
  \<^verbatim>\<open>loop\<close> (its contents up to the terminating NUL) and the offset \<^verbatim>\<open>at\<close>.
  \<open>calls\<close> is not in the source: it records, for the sweep in progress, which
  \<^verbatim>\<open>term_package\<close> functions were called and what each returned, in call order.
  \<open>xst\<close> is the state of the external collaborators.

  \<^verbatim>\<open>pending\<close>, \<^verbatim>\<open>n\<close> and the results of \<^verbatim>\<open>term_package\<close> are C \<^verbatim>\<open>int\<close>s of 32
  bits.  \<open>int_wrap v\<close> is the \<^verbatim>\<open>int\<close> that holds \<open>v\<close>: \<open>v\<close> itself from
  \<^verbatim>\<open>INT_MIN\<close> (-2147483648) to \<^verbatim>\<open>INT_MAX\<close> (2147483647), and wrapped around modulo
  4294967296 outside.  What a collaborator returns is read as such an \<^verbatim>\<open>int\<close>, and
  \<^verbatim>\<open>pending += n\<close> wraps around (the overflow is undefined in C; two's complement
  machines wrap).
\<close>

definition int_wrap :: "int \<Rightarrow> int" where
  "int_wrap v = (v + 2147483648) mod 4294967296 - 2147483648"

record 's sweep_state =
  pending :: int
  loop :: string
  at :: nat
  calls :: "(H5_pkg \<times> int) list"
  xst :: 's

text \<open>
  \<^verbatim>\<open>pending += DOWN(F)\<close>.  \<^verbatim>\<open>sizeof loop\<close> is 1024.  \<^verbatim>\<open>sprintf(loop + at, ...)\<close>
  overwrites the buffer from offset \<^verbatim>\<open>at\<close> on, and \<^verbatim>\<open>at += strlen(loop + at)\<close> adds
  the length of what was written.
\<close>

definition DOWN :: "'s env \<Rightarrow> H5_pkg \<Rightarrow> 's sweep_state \<Rightarrow> 's sweep_state" where
  "DOWN E F s =
    (let (r, x) = term_package E F (xst s);
         n = int_wrap r;
         s = s\<lparr>calls := calls s @ [(F, n)], xst := x\<rparr>;
         s = (if n \<noteq> 0 \<and> at s + 8 < 1024 then
                (let w = (if at s \<noteq> 0 then '','' else '''') @ pkg_str F
                 in s\<lparr>loop := take (at s) (loop s) @ w, at := at s + length w\<rparr>)
              else if n > 0 \<and> at s + 5 < 1024 then
                s\<lparr>loop := take (at s) (loop s) @ ''...'', at := at s + length ''...''\<rparr>
              else s)
     in s\<lparr>pending := int_wrap (pending s + n)\<rparr>)"

text \<open>
  A block of statements run one after the other, and the guard
  \<^verbatim>\<open>if (pending == 0) { ... }\<close> around a block.
\<close>

definition stmts :: "('a \<Rightarrow> 'a) list \<Rightarrow> 'a \<Rightarrow> 'a" where
  "stmts fs s = fold (\<lambda>f. f) fs s"

definition if_pending_0 :: "('s sweep_state \<Rightarrow> 's sweep_state) \<Rightarrow> 's sweep_state \<Rightarrow> 's sweep_state" where
  "if_pending_0 body s = (if pending s = 0 then body s else s)"

text \<open>One pass of the body of the \<^verbatim>\<open>do ... while\<close> loop.\<close>

definition sweep :: "'s env \<Rightarrow> 's sweep_state \<Rightarrow> 's sweep_state" where
  "sweep E =
    stmts [
      (\<lambda>s. s\<lparr>pending := 0\<rparr>),
      DOWN E H5ES,
      if_pending_0 (stmts [
        DOWN E H5L,
        DOWN E H5A_top,
        DOWN E H5D_top,
        DOWN E H5G_top,
        DOWN E H5M_top,
        DOWN E H5S_top,
        DOWN E H5T_top]),
      if_pending_0 (DOWN E H5F),
      if_pending_0 (DOWN E H5P),
      if_pending_0 (stmts [
        DOWN E H5A,
        DOWN E H5D,
        DOWN E H5G,
        DOWN E H5M,
        DOWN E H5S,
        DOWN E H5T]),
      if_pending_0 (stmts [
        DOWN E H5AC,
        DOWN E H5Z,
        DOWN E H5FD,
        DOWN E H5VL,
        if_pending_0 (DOWN E H5PL),
        if_pending_0 (DOWN E H5E),
        if_pending_0 (DOWN E H5I),
        if_pending_0 (DOWN E H5SL),
        if_pending_0 (DOWN E H5FL),
        if_pending_0 (DOWN E H5CX)])]"

text \<open>
  \<^verbatim>\<open>do { ... } while (pending && ntries++ < 100);\<close> with \<^verbatim>\<open>ntries\<close> starting at 0.
  The function returns the state after the last sweep and the record of every sweep made
  (the calls of each sweep, oldest sweep first).  The second argument is \<^verbatim>\<open>ntries\<close>;
  the third collects the sweeps already made.
\<close>

function term_loop ::
  "'s env \<Rightarrow> nat \<Rightarrow> (H5_pkg \<times> int) list list \<Rightarrow> 's sweep_state
    \<Rightarrow> 's sweep_state \<times> (H5_pkg \<times> int) list list" where
  "term_loop E ntries swept s =
    (let s = sweep E (s\<lparr>calls := []\<rparr>);
         swept = swept @ [calls s]
     in if pending s \<noteq> 0 \<and> ntries < 100 then term_loop E (ntries + 1) swept s
        else (s, swept))"
  by pat_completeness auto
termination
  by (relation "measure (\<lambda>(E, ntries, swept, s). 100 - ntries)") auto

section \<open>C library functions used by \<^verbatim>\<open>H5.c\<close>\<close>

text \<open>\<^verbatim>\<open>isalpha\<close> and \<^verbatim>\<open>isdigit\<close> in the C locale.\<close>

definition isalpha :: "char \<Rightarrow> bool" where
  "isalpha c =
    (let n = (of_char c :: nat) in (65 \<le> n \<and> n \<le> 90) \<or> (97 \<le> n \<and> n \<le> 122))"

definition isdigit :: "char \<Rightarrow> bool" where
  "isdigit c = (let n = (of_char c :: nat) in 48 \<le> n \<and> n \<le> 57)"

text \<open>
  The value of a character as a digit of \<^verbatim>\<open>strtol\<close>: \<^verbatim>\<open>0\<close> to \<^verbatim>\<open>9\<close>, then the letters
  in either case from 10 on; 36 for a character that is no digit in any base.
\<close>

definition digit_val :: "char \<Rightarrow> nat" where
  "digit_val c =
    (let n = (of_char c :: nat) in
     if 48 \<le> n \<and> n \<le> 57 then n - 48
     else if 97 \<le> n \<and> n \<le> 122 then n - 87
     else if 65 \<le> n \<and> n \<le> 90 then n - 55
     else 36)"

definition LONG_MAX :: nat where
  "LONG_MAX = 2 ^ 63 - 1"

text \<open>
  \<^verbatim>\<open>strtol(c :: cs, &rest, 0)\<close> for a string whose first character \<open>c\<close> is a decimal
  digit, which is how \<^verbatim>\<open>H5.c\<close> calls it (after \<^verbatim>\<open>isdigit(*s)\<close>): there is no
  white space and no sign to skip.  With base 0 the prefix \<^verbatim>\<open>0x\<close> or \<^verbatim>\<open>0X\<close> before a
  hexadecimal digit selects base 16, another leading \<^verbatim>\<open>0\<close> base 8, anything else
  base 10.  The digits of that base are read as far as they go; a value above
  \<^verbatim>\<open>LONG_MAX\<close> is returned as \<^verbatim>\<open>LONG_MAX\<close> (a 64-bit \<^verbatim>\<open>long\<close>).  The result is the
  value and the rest of the string.
\<close>

definition strtol_digits :: "nat \<Rightarrow> string \<Rightarrow> nat \<times> string" where
  "strtol_digits b ds =
    (let v = fold (\<lambda>d v. v * b + digit_val d) (takeWhile (\<lambda>d. digit_val d < b) ds) 0
     in (if v > LONG_MAX then LONG_MAX else v, dropWhile (\<lambda>d. digit_val d < b) ds))"

definition strtol :: "char \<Rightarrow> string \<Rightarrow> nat \<times> string" where
  "strtol c cs =
    (if c = CHR ''0'' then
       (case cs of
          x # h # _ \<Rightarrow>
            if (x = CHR ''x'' \<or> x = CHR ''X'') \<and> digit_val h < 16 then strtol_digits 16 (tl cs)
            else strtol_digits 8 (c # cs)
        | _ \<Rightarrow> strtol_digits 8 (c # cs))
     else strtol_digits 10 (c # cs))"

text \<open>The conversions \<^verbatim>\<open>(int)\<close> and \<^verbatim>\<open>(unsigned int)\<close> of a \<^verbatim>\<open>long\<close>, to 32 bits.\<close>

definition long_to_int :: "nat \<Rightarrow> int" where
  "long_to_int v = sint (word_of_nat v :: 32 word)"

definition long_to_unsigned :: "nat \<Rightarrow> nat" where
  "long_to_unsigned v = v mod 2 ^ 32"

text \<open>The output of \<^verbatim>\<open>%u\<close> and, for a value that is not negative, of \<^verbatim>\<open>%d\<close>.\<close>

function show_nat :: "nat \<Rightarrow> string" where
  "show_nat n =
    (if n < 10 then [''0123456789'' ! n]
     else show_nat (n div 10) @ [''0123456789'' ! (n mod 10)])"
  by pat_completeness auto
termination
  by (relation "measure (\<lambda>n. n)") auto

section \<open>The state of the library\<close>

text \<open>
  A \<^verbatim>\<open>FILE *\<close> that is not null: the standard error stream, or the stream that
  \<^verbatim>\<open>fdopen\<close> made for a file descriptor.  A null pointer is \<open>None\<close>.
\<close>

datatype FILE = Stderr | Fdopen int

text \<open>
  \<^verbatim>\<open>H5_debug_t\<close> is declared in \<^verbatim>\<open>H5private.h\<close>; the fields are those that
  \<^verbatim>\<open>H5.c\<close> uses.  The list \<open>pkg\<close> is the array \<^verbatim>\<open>pkg[H5_NPKGS]\<close>, so that a loop over
  \<^verbatim>\<open>i < H5_NPKGS\<close> is a loop over the list.  The list \<open>open_stream\<close> is the linked list
  of \<^verbatim>\<open>H5_debug_open_stream_t\<close>, newest first.  A package name is a string: the names are
  set by \<^verbatim>\<open>H5_init_library\<close> before \<^verbatim>\<open>H5__debug_mask\<close> reads them.
\<close>

record H5_debug_pkg_t =
  name :: string
  stream :: "FILE option"

record H5_debug_t =
  trace :: "FILE option"
  ttop :: bool
  ttimes :: bool
  pkg :: "H5_debug_pkg_t list"
  open_stream :: "FILE list"

record H5_atclose_node_t =
  func :: nat
  ctx :: nat

text \<open>What \<^verbatim>\<open>atexit\<close> was given.\<close>

datatype atexit_fn = Atexit_H5TS_term_package | Atexit_H5_term_library

text \<open>
  The globals of \<^verbatim>\<open>H5.c\<close> (the list \<open>H5_atclose_head\<close> is the linked list of
  \<^verbatim>\<open>H5_atclose_node_t\<close> from its head), the static locals \<^verbatim>\<open>checked\<close> and
  \<^verbatim>\<open>disable_version_check\<close> of \<^verbatim>\<open>H5_check_version\<close>, and of the process: the
  functions registered with \<^verbatim>\<open>atexit\<close> (in registration order), what was written to
  \<^verbatim>\<open>stderr\<close>, whether the file descriptor 2 of \<^verbatim>\<open>stderr\<close> has been closed, and the
  state \<open>ext\<close> of the external collaborators.

  Two fields are not in the source and only record what happened: \<open>cb_log\<close> lists
  the atclose callbacks invoked (function and context, in call order), \<open>sweep_log\<close>
  the sweeps of the shutdown loop (for each sweep the \<^verbatim>\<open>term_package\<close> calls and their
  results).
\<close>

record 's world =
  H5_libinit_g :: bool
  H5_libterm_g :: bool
  H5_dont_atexit_g :: bool
  H5_debug_g :: H5_debug_t
  H5_atclose_head :: "H5_atclose_node_t list"
  checked :: bool
  disable_version_check :: nat
  atexit_fns :: "atexit_fn list"
  stderr_out :: string
  stderr_closed :: bool
  ext :: 's
  cb_log :: "(nat \<times> nat) list"
  sweep_log :: "(H5_pkg \<times> int) list list"

text \<open>
  A call either returns a value, or the process is aborted (\<^verbatim>\<open>abort()\<close>) in the state
  given.
\<close>

datatype ('a, 'w) outcome = Aborted 'w | Returned 'a 'w

text \<open>
  Output on \<^verbatim>\<open>stderr\<close> (\<^verbatim>\<open>fprintf\<close>, \<^verbatim>\<open>fputs\<close>): once the descriptor is closed, what
  is written is lost.  \<^verbatim>\<open>fclose\<close> of a stream that \<^verbatim>\<open>fdopen\<close> made closes the
  descriptor of the stream, which may be that of \<^verbatim>\<open>stderr\<close>.
\<close>

definition fputs :: "string \<Rightarrow> 's world \<Rightarrow> 's world" where
  "fputs str w = (if stderr_closed w then w else w\<lparr>stderr_out := stderr_out w @ str\<rparr>)"

fun fclose :: "FILE \<Rightarrow> 's world \<Rightarrow> 's world" where
  "fclose Stderr w = w\<lparr>stderr_closed := True\<rparr>"
| "fclose (Fdopen fd) w = (if fd = 2 then w\<lparr>stderr_closed := True\<rparr> else w)"

section \<open>\<^verbatim>\<open>H5__debug_mask\<close>\<close>

text \<open>\<^verbatim>\<open>H5_NPKGS\<close> packages have debug settings; \<^verbatim>\<open>H5_init_library\<close> names twenty.\<close>

definition H5_NPKGS :: nat where
  "H5_NPKGS = 20"

text \<open>
  The effect of one name with its sign: \<^verbatim>\<open>trace\<close>, \<^verbatim>\<open>ttop\<close>, \<^verbatim>\<open>ttimes\<close>,
  \<^verbatim>\<open>all\<close> or a package name.  \<open>set_first\<close> is the loop that looks for the package
  and stops at the first match; its result tells whether there was one.
\<close>

fun set_first :: "string \<Rightarrow> FILE option \<Rightarrow> H5_debug_pkg_t list \<Rightarrow> bool \<times> H5_debug_pkg_t list" where
  "set_first pkg_name v [] = (False, [])"
| "set_first pkg_name v (p # ps) =
    (if name p = pkg_name then (True, p\<lparr>stream := v\<rparr> # ps)
     else (let (found, ps') = set_first pkg_name v ps in (found, p # ps')))"

definition debug_name :: "bool \<Rightarrow> FILE option \<Rightarrow> string \<Rightarrow> 's world \<Rightarrow> 's world" where
  "debug_name clear cur_stream pkg_name w =
    (let d = H5_debug_g w in
     if pkg_name = ''trace'' then
       w\<lparr>H5_debug_g := d\<lparr>trace := (if clear then None else cur_stream)\<rparr>\<rparr>
     else if pkg_name = ''ttop'' then
       w\<lparr>H5_debug_g := d\<lparr>trace := cur_stream, ttop := \<not> clear\<rparr>\<rparr>
     else if pkg_name = ''ttimes'' then
       w\<lparr>H5_debug_g := d\<lparr>trace := cur_stream, ttimes := \<not> clear\<rparr>\<rparr>
     else if pkg_name = ''all'' then
       w\<lparr>H5_debug_g := d\<lparr>pkg :=
           map (\<lambda>p. p\<lparr>stream := (if clear then None else cur_stream)\<rparr>) (pkg d)\<rparr>\<rparr>
     else
       (let (found, ps) = set_first pkg_name (if clear then None else cur_stream) (pkg d)
        in if found then w\<lparr>H5_debug_g := d\<lparr>pkg := ps\<rparr>\<rparr>
           else fputs (''HDF5_DEBUG: ignored '' @ pkg_name @ ''\<newline>'') w))"

text \<open>
  One turn of the \<^verbatim>\<open>while\<close> loop, on a string that starts with \<open>c\<close> and goes on with
  \<open>cs\<close>.  The result is \<open>Inl\<close> when the function returns at once (the allocation of
  the stream record failed and the stream was closed again), else the current stream, the
  rest of the string and the new state.  \<^verbatim>\<open>pkg_name\<close> has room for 32 characters; the name is cut to 31.
  When \<^verbatim>\<open>fdopen\<close> fails, the current stream is the null pointer it returned.
\<close>

definition debug_mask_step ::
  "'s env \<Rightarrow> FILE option \<Rightarrow> char \<Rightarrow> string \<Rightarrow> 's world
    \<Rightarrow> 's world + (FILE option \<times> string \<times> 's world)" where
  "debug_mask_step E cur_stream c cs w =
    (if isalpha c \<or> c = CHR ''-'' \<or> c = CHR ''+'' then
       (let clear = (c = CHR ''-'');
            s1 = (if c = CHR ''-'' \<or> c = CHR ''+'' then cs else c # cs);
            pkg_name = take 31 (takeWhile isalpha s1)
        in Inr (cur_stream, dropWhile isalpha s1, debug_name clear cur_stream pkg_name w))
     else if isdigit c then
       (let (v, rest) = strtol c cs;
            fd = long_to_int v;
            (opened, x) = HDfdopen E fd (ext w)
        in if opened then
             (let (allocated, x) = H5MM_malloc E x
              in if \<not> allocated then Inl (fclose (Fdopen fd) (w\<lparr>ext := x\<rparr>))
                 else Inr (Some (Fdopen fd), rest,
                        w\<lparr>H5_debug_g := (H5_debug_g w)\<lparr>open_stream :=
                              Fdopen fd # open_stream (H5_debug_g w)\<rparr>,
                          ext := x\<rparr>))
           else Inr (None, rest, w\<lparr>ext := x\<rparr>))
     else Inr (cur_stream, cs, w))"

function debug_mask_loop :: "'s env \<Rightarrow> FILE option \<Rightarrow> string \<Rightarrow> 's world \<Rightarrow> 's world" where
  "debug_mask_loop E cur_stream [] w = w"
| "debug_mask_loop E cur_stream (c # cs) w =
    (case debug_mask_step E cur_stream c cs w of
       Inl w' \<Rightarrow> w'
     | Inr (cur_stream', rest, w') \<Rightarrow> debug_mask_loop E cur_stream' rest w')"
  by pat_completeness auto
termination
proof (relation "measure (\<lambda>(E, cur_stream, s, w). length s)")
  show "wf (measure (\<lambda>(E :: 's env, cur_stream :: FILE option, s :: string, w :: 's world). length s))"
    by simp
next
  fix E :: "'s env" and cur_stream c cs and w :: "'s world" and x2 cur_stream' y rest w'
  assume "debug_mask_step E cur_stream c cs w = Inr x2" and "(cur_stream', y) = x2"
    and "(rest, w') = y"
  then have step: "debug_mask_step E cur_stream c cs w = Inr (cur_stream', rest, w')"
    by auto
  have dw: "length (dropWhile P xs) \<le> length xs" for P and xs :: string
    by (rule length_dropWhile_le)
  have digits: "length (snd (strtol_digits b xs)) \<le> length xs" for b xs
    by (simp add: strtol_digits_def Let_def dw)
  have digits': "length (snd (strtol_digits b (d # xs))) \<le> length xs" if "digit_val d < b" for b d xs
    using that by (simp add: strtol_digits_def Let_def dw)
  have tl: "length (tl xs) \<le> length xs" for xs :: string
    by simp
  have dec: "digit_val c < 10" if "isdigit c"
    using that by (auto simp: isdigit_def digit_val_def Let_def)
  have st: "length (snd (strtol c cs)) \<le> length cs" if "isdigit c"
  proof (cases "c = CHR ''0''")
    case True
    have 8: "length (snd (strtol_digits 8 (c # cs))) \<le> length cs"
      using True by (intro digits') (simp add: digit_val_def)
    have 16: "length (snd (strtol_digits 16 (tl cs))) \<le> length cs"
      using digits [of 16 "tl cs"] tl [of cs] by linarith
    have "strtol c cs = strtol_digits 8 (c # cs) \<or> strtol c cs = strtol_digits 16 (tl cs)"
      using True by (simp add: strtol_def split: list.split)
    then show ?thesis
      using 8 16 by auto
  next
    case False
    then show ?thesis using digits' [OF dec [OF that]] by (simp add: strtol_def)
  qed
  have "length rest \<le> length cs"
  proof (cases "isalpha c \<or> c = CHR ''-'' \<or> c = CHR ''+''")
    case True
    then have "rest = dropWhile isalpha (if c = CHR ''-'' \<or> c = CHR ''+'' then cs else c # cs)"
      using step by (simp add: debug_mask_step_def Let_def)
    then show ?thesis using True dw [of isalpha cs] by auto
  next
    case False
    show ?thesis
    proof (cases "isdigit c")
      case True
      then have "rest = snd (strtol c cs)"
        using False step
        by (auto simp: debug_mask_step_def Let_def split: prod.splits if_splits)
      then show ?thesis using st [OF True] by simp
    next
      case False
      then show ?thesis using \<open>\<not> (isalpha c \<or> c = CHR ''-'' \<or> c = CHR ''+'')\<close> step
        by (simp add: debug_mask_step_def)
    qed
  qed
  then show "((E, cur_stream', rest, w'), (E, cur_stream, c # cs, w))
      \<in> measure (\<lambda>(E, cur_stream, s, w). length s)"
    by simp
qed

text \<open>
  \<^verbatim>\<open>H5__debug_mask(s)\<close>: the current stream starts as \<^verbatim>\<open>stderr\<close>; a null \<open>s\<close> is
  \<open>None\<close>.
\<close>

definition H5__debug_mask :: "'s env \<Rightarrow> string option \<Rightarrow> 's world \<Rightarrow> 's world" where
  "H5__debug_mask E s w =
    (case s of None \<Rightarrow> w | Some str \<Rightarrow> debug_mask_loop E (Some Stderr) str w)"

section \<open>\<^verbatim>\<open>H5_check_version\<close>\<close>

definition VERSION_MISMATCH_WARNING :: string where
  "VERSION_MISMATCH_WARNING =
    ''Warning! ***HDF5 library version mismatched error***\<newline>'' @
    ''The HDF5 header files used to compile this application do not match\<newline>'' @
    ''the version used by the HDF5 library to which this application is linked.\<newline>'' @
    ''Data corruption or segmentation faults may occur if the application continues.\<newline>'' @
    ''This can happen when an application was compiled by one version of HDF5 but\<newline>'' @
    ''linked with a different version of static or shared HDF5 library.\<newline>'' @
    ''You should recompile the application or check your shared library related\<newline>'' @
    ''settings such as '' @ [CHR 0x27] @ ''LD_LIBRARY_PATH'' @ [CHR 0x27] @ ''.\<newline>''"

definition RELEASE_MISMATCH_WARNING :: string where
  "RELEASE_MISMATCH_WARNING =
    ''Warning! ***HDF5 library release mismatched error***\<newline>'' @
    ''The HDF5 header files used to compile this application are not compatible with\<newline>'' @
    ''the version used by the HDF5 library to which this application is linked.\<newline>'' @
    ''Data corruption or segmentation faults may occur if the application continues.\<newline>'' @
    ''This can happen when an application was compiled by one version of HDF5 but\<newline>'' @
    ''linked with an incompatible version of static or shared HDF5 library.\<newline>'' @
    ''You should recompile the application or check your shared library related\<newline>'' @
    ''settings such as '' @ [CHR 0x27] @ ''LD_LIBRARY_PATH'' @ [CHR 0x27] @ ''.\<newline>''"

text \<open>The second argument of the first \<^verbatim>\<open>fprintf\<close> of \<^verbatim>\<open>case 0\<close>.\<close>

definition disable_hint :: string where
  "disable_hint =
    ''You can, at your own risk, disable this warning by setting the environment\<newline>'' @
    ''variable '' @ [CHR 0x27] @ ''HDF5_DISABLE_VERSION_CHECK'' @ [CHR 0x27] @
    '' to a value of '' @ [CHR 0x27] @ ''1'' @ [CHR 0x27] @ ''.\<newline>'' @
    ''Setting it to 2 or higher will suppress the warning messages totally.\<newline>''"

text \<open>What follows the warning in the format string of \<^verbatim>\<open>case 1\<close>, with \<^verbatim>\<open>%d\<close> filled in.\<close>

definition continue_notice :: "nat \<Rightarrow> string" where
  "continue_notice lvl =
    [CHR 0x27] @ ''HDF5_DISABLE_VERSION_CHECK'' @ [CHR 0x27] @ '' '' @
    ''environment variable is set to '' @ show_nat lvl @ '', application will\<newline>'' @
    ''continue at your own risk.\<newline>''"

text \<open>\<^verbatim>\<open>"Headers are %u.%u.%u, library is %u.%u.%u\n"\<close>.\<close>

definition headers_line :: "'s env \<Rightarrow> nat \<Rightarrow> nat \<Rightarrow> nat \<Rightarrow> string" where
  "headers_line E majnum minnum relnum =
    ''Headers are '' @ show_nat majnum @ ''.'' @ show_nat minnum @ ''.'' @ show_nat relnum @
    '', library is '' @ show_nat (H5_VERS_MAJOR E) @ ''.'' @ show_nat (H5_VERS_MINOR E) @ ''.'' @
    show_nat (H5_VERS_RELEASE E) @ ''\<newline>''"

text \<open>
  The block that reads \<^verbatim>\<open>HDF5_DISABLE_VERSION_CHECK\<close>.  The first character of an
  empty string is the NUL, which is no digit.
\<close>

definition read_disable_version_check :: "'s env \<Rightarrow> 's world \<Rightarrow> 's world" where
  "read_disable_version_check E w =
    (case getenv E ''HDF5_DISABLE_VERSION_CHECK'' of
       None \<Rightarrow> w
     | Some [] \<Rightarrow> w
     | Some (c # cs) \<Rightarrow>
         if isdigit c then w\<lparr>disable_version_check := long_to_unsigned (fst (strtol c cs))\<rparr>
         else w)"

text \<open>The \<^verbatim>\<open>switch\<close> under the test of the major and minor numbers.\<close>

definition version_mismatch_switch ::
  "'s env \<Rightarrow> nat \<Rightarrow> nat \<Rightarrow> nat \<Rightarrow> 's world \<Rightarrow> (unit, 's world) outcome" where
  "version_mismatch_switch E majnum minnum relnum w =
    (if disable_version_check w = 0 then
       (let w = fputs (VERSION_MISMATCH_WARNING @ disable_hint) w;
            w = fputs (headers_line E majnum minnum relnum) w;
            w = fputs (H5build_settings E) w;
            w = fputs ''Bye...\<newline>'' w
        in Aborted w)
     else if disable_version_check w = 1 then
       (let w = fputs (VERSION_MISMATCH_WARNING @ continue_notice (disable_version_check w)) w;
            w = fputs (headers_line E majnum minnum relnum) w;
            w = fputs (H5build_settings E) w
        in Returned () w)
     else Returned () w)"

text \<open>The \<^verbatim>\<open>switch\<close> under the test of the release exceptions.\<close>

definition release_mismatch_switch ::
  "'s env \<Rightarrow> nat \<Rightarrow> nat \<Rightarrow> nat \<Rightarrow> 's world \<Rightarrow> (unit, 's world) outcome" where
  "release_mismatch_switch E majnum minnum relnum w =
    (if disable_version_check w = 0 then
       (let w = fputs (RELEASE_MISMATCH_WARNING @ disable_hint) w;
            w = fputs (headers_line E majnum minnum relnum) w;
            w = fputs ''Bye...\<newline>'' w
        in Aborted w)
     else if disable_version_check w = 1 then
       (let w = fputs (RELEASE_MISMATCH_WARNING @ continue_notice (disable_version_check w)) w;
            w = fputs (headers_line E majnum minnum relnum) w
        in Returned () w)
     else Returned () w)"

definition VERS_RELEASE_EXCEPTIONS :: "nat list" where
  "VERS_RELEASE_EXCEPTIONS = [0]"

text \<open>The \<^verbatim>\<open>for\<close> loop over the release exceptions, on the exceptions still to check.\<close>

fun release_exceptions_loop ::
  "'s env \<Rightarrow> nat list \<Rightarrow> nat \<Rightarrow> nat \<Rightarrow> nat \<Rightarrow> 's world \<Rightarrow> (unit, 's world) outcome" where
  "release_exceptions_loop E [] majnum minnum relnum w = Returned () w"
| "release_exceptions_loop E (e # es) majnum minnum relnum w =
    (if e = relnum \<or> e = H5_VERS_RELEASE E then
       (case release_mismatch_switch E majnum minnum relnum w of
          Aborted w' \<Rightarrow> Aborted w'
        | Returned _ w' \<Rightarrow> release_exceptions_loop E es majnum minnum relnum w')
     else release_exceptions_loop E es majnum minnum relnum w)"

text \<open>
  The last part: \<^verbatim>\<open>snprintf\<close> into \<^verbatim>\<open>lib_str\<close>, which holds 255 characters, and the
  comparison with \<^verbatim>\<open>H5_lib_vers_info_g\<close>, which is initialised with \<^verbatim>\<open>H5_VERS_INFO\<close>.
\<close>

definition lib_str :: "'s env \<Rightarrow> string" where
  "lib_str E =
    take 255 (''HDF5 library version: '' @ show_nat (H5_VERS_MAJOR E) @ ''.'' @
      show_nat (H5_VERS_MINOR E) @ ''.'' @ show_nat (H5_VERS_RELEASE E) @
      (if H5_VERS_SUBRELEASE E \<noteq> [] then ''-'' else []) @ H5_VERS_SUBRELEASE E)"

definition vers_info_check :: "'s env \<Rightarrow> 's world \<Rightarrow> 's world" where
  "vers_info_check E w =
    (if lib_str E \<noteq> H5_VERS_INFO E then
       (let w = fputs (''Warning!  Library version information error.\<newline>'' @
                  ''The HDF5 library version information are not '' @
                  ''consistent in its source code.\<newline>This is NOT a fatal error '' @
                  ''but should be corrected.  Setting the environment\<newline>'' @
                  ''variable '' @ [CHR 0x27] @ ''HDF5_DISABLE_VERSION_CHECK'' @ [CHR 0x27] @
                  '' to a value of 1 '' @
                  ''will suppress\<newline>this warning.\<newline>'') w
        in fputs (''Library version information are:\<newline>'' @
                  ''H5_VERS_MAJOR='' @ show_nat (H5_VERS_MAJOR E) @
                  '', H5_VERS_MINOR='' @ show_nat (H5_VERS_MINOR E) @
                  '', H5_VERS_RELEASE='' @ show_nat (H5_VERS_RELEASE E) @
                  '', H5_VERS_SUBRELEASE='' @ H5_VERS_SUBRELEASE E @
                  '',\<newline>H5_VERS_INFO='' @ H5_VERS_INFO E @ ''\<newline>'') w)
     else w)"

definition H5_check_version ::
  "'s env \<Rightarrow> nat \<Rightarrow> nat \<Rightarrow> nat \<Rightarrow> 's world \<Rightarrow> (herr_t, 's world) outcome" where
  "H5_check_version E majnum minnum relnum w =
    (if checked w then Returned SUCCEED w
     else
       (let w = read_disable_version_check E w in
        case (if H5_VERS_MAJOR E \<noteq> majnum \<or> H5_VERS_MINOR E \<noteq> minnum
              then version_mismatch_switch E majnum minnum relnum w
              else Returned () w) of
          Aborted w \<Rightarrow> Aborted w
        | Returned _ w \<Rightarrow>
           (case (if H5_VERS_RELEASE E \<noteq> relnum
                  then release_exceptions_loop E VERS_RELEASE_EXCEPTIONS majnum minnum relnum w
                  else Returned () w) of
              Aborted w \<Rightarrow> Aborted w
            | Returned _ w \<Rightarrow>
               (let w = w\<lparr>checked := True\<rparr>;
                    w = (if disable_version_check w = 0 then vers_info_check E w else w)
                in Returned SUCCEED w))))"

text \<open>The public \<^verbatim>\<open>H5check_version\<close> calls the internal routine and returns \<^verbatim>\<open>SUCCEED\<close>.\<close>

definition H5check_version ::
  "'s env \<Rightarrow> nat \<Rightarrow> nat \<Rightarrow> nat \<Rightarrow> 's world \<Rightarrow> (herr_t, 's world) outcome" where
  "H5check_version E majnum minnum relnum w =
    (case H5_check_version E majnum minnum relnum w of
       Aborted w' \<Rightarrow> Aborted w'
     | Returned _ w' \<Rightarrow> Returned SUCCEED w')"

section \<open>\<^verbatim>\<open>H5_init_library\<close>\<close>

text \<open>
  \<^verbatim>\<open>H5_debug_g\<close> after the \<^verbatim>\<open>memset\<close> and the assignments of the package names, in the
  order of the package numbers \<^verbatim>\<open>H5_PKG_A\<close>, \<^verbatim>\<open>H5_PKG_AC\<close>, ... of \<^verbatim>\<open>H5private.h\<close>.
\<close>

definition debug_g_named :: H5_debug_t where
  "debug_g_named =
    \<lparr>trace = None, ttop = False, ttimes = False,
     pkg = map (\<lambda>n. \<lparr>name = n, stream = None\<rparr>)
             [''a'', ''ac'', ''b'', ''d'', ''e'', ''f'', ''g'', ''hg'', ''hl'', ''i'',
              ''m'', ''mf'', ''mm'', ''o'', ''p'', ''s'', ''t'', ''v'', ''vl'', ''z''],
     open_stream = []\<rparr>"

text \<open>The chain of initialisers: it stops at the first that fails.\<close>

fun run_inits :: "'s env \<Rightarrow> init_fn list \<Rightarrow> 's \<Rightarrow> bool \<times> 's" where
  "run_inits E [] x = (True, x)"
| "run_inits E (f # fs) x =
    (let (r, x') = init_call E f x in if r < 0 then (False, x') else run_inits E fs x')"

text \<open>
  The parts of \<^verbatim>\<open>H5_init_library\<close>: the block under \<^verbatim>\<open>H5_HAVE_PARALLEL\<close>, the
  installation of the \<^verbatim>\<open>atexit\<close> routines, and the chain of interface initialisers.
\<close>

definition attach_mpi :: "'s env \<Rightarrow> 's world \<Rightarrow> bool \<times> 's world" where
  "attach_mpi E w =
    (if H5_HAVE_PARALLEL E then (let (ok, x) = mpi_attach E (ext w) in (ok, w\<lparr>ext := x\<rparr>))
     else (True, w))"

definition install_atexit :: "'s env \<Rightarrow> 's world \<Rightarrow> 's world" where
  "install_atexit E w =
    (if \<not> H5_dont_atexit_g w then
       w\<lparr>atexit_fns := atexit_fns w
             @ (if H5_HAVE_THREADSAFE_API E then [Atexit_H5TS_term_package] else [])
             @ [Atexit_H5_term_library],
         H5_dont_atexit_g := True\<rparr>
     else w)"

definition init_interfaces :: "'s env \<Rightarrow> 's world \<Rightarrow> bool \<times> 's world" where
  "init_interfaces E w =
    (let (ok, x) = run_inits E
                     [H5E_init, H5FD_init, H5VL_init_phase1, H5P_init_phase1, H5L_init,
                      H5O_init, H5FS_init, H5S_init, H5T_init, H5P_init_phase2,
                      H5VL_init_phase2] (ext w)
     in (ok, w\<lparr>ext := x\<rparr>))"

definition H5_init_library :: "'s env \<Rightarrow> 's world \<Rightarrow> (herr_t, 's world) outcome" where
  "H5_init_library E w =
    (if H5_libinit_g w \<or> H5_libterm_g w then Returned SUCCEED w
     else
       (case H5_check_version E (H5_VERS_MAJOR E) (H5_VERS_MINOR E) (H5_VERS_RELEASE E) w of
          Aborted w \<Rightarrow> Aborted w
        | Returned _ w \<Rightarrow>
           (let w = w\<lparr>H5_libinit_g := True\<rparr>;
                (mpi_ok, w) = attach_mpi E w
            in if \<not> mpi_ok then Returned FAIL w
               else
                 (let w = w\<lparr>H5_debug_g := debug_g_named\<rparr>;
                      w = install_atexit E w;
                      (ok, w) = init_interfaces E w
                  in if \<not> ok then Returned FAIL w
                     else
                       (let w = H5__debug_mask E (Some ''-all'') w;
                            w = H5__debug_mask E (getenv E ''HDF5_DEBUG'') w
                        in Returned SUCCEED w)))))"

text \<open>\<^verbatim>\<open>H5__init_package\<close>: the library is initialised unless it is, or is shutting down.\<close>

definition H5__init_package :: "'s env \<Rightarrow> 's world \<Rightarrow> (herr_t, 's world) outcome" where
  "H5__init_package E w =
    (if \<not> H5_libinit_g w \<and> \<not> H5_libterm_g w then
       (case H5_init_library E w of
          Aborted w' \<Rightarrow> Aborted w'
        | Returned r w' \<Rightarrow> if r < 0 then Returned FAIL w' else Returned SUCCEED w')
     else Returned SUCCEED w)"

text \<open>
  Modelled from the spec: the macro \<^verbatim>\<open>FUNC_ENTER_API\<close> of \<^verbatim>\<open>H5private.h\<close> is missing
  from the sources.  The specification says that any public entry point first asks for the
  library to be initialised, which is idempotent; this is the test that
  \<^verbatim>\<open>H5__init_package\<close> makes.  A failure makes the entry point return its error value.
\<close>

definition FUNC_ENTER_API :: "'s env \<Rightarrow> 's world \<Rightarrow> (herr_t, 's world) outcome" where
  "FUNC_ENTER_API E w = H5__init_package E w"

section \<open>\<^verbatim>\<open>H5_term_library\<close>\<close>

text \<open>
  The walk over the atclose list: each callback is called with its context, then its node
  is freed.  (The bracket \<^verbatim>\<open>H5_BEFORE_USER_CB_NOCHECK\<close> ... \<^verbatim>\<open>H5_AFTER_USER_CB_NOCHECK\<close>
  saves and restores state of other packages and is not modelled.)  A callback acts on the
  state of the collaborators; it does not call back into the library.
\<close>

fun run_atclose :: "'s env \<Rightarrow> H5_atclose_node_t list \<Rightarrow> 's world \<Rightarrow> 's world" where
  "run_atclose E [] w = w"
| "run_atclose E (curr_atclose # next) w =
    run_atclose E next
      (w\<lparr>ext := user_cb E (func curr_atclose) (ctx curr_atclose) (ext w),
         cb_log := cb_log w @ [(func curr_atclose, ctx curr_atclose)]\<rparr>)"

text \<open>
  The report when the loop has given up, printed if \<^verbatim>\<open>func\<close> is not null; without
  \<^verbatim>\<open>NDEBUG\<close> the process is then aborted.
\<close>

definition infinite_loop_report :: "string \<Rightarrow> string" where
  "infinite_loop_report lp =
    ''HDF5: infinite loop closing library\<newline>'' @ ''      '' @ lp @ ''\<newline>''"

text \<open>
  The locals when the loop is entered: \<^verbatim>\<open>at\<close> is 0; \<^verbatim>\<open>pending\<close> and \<^verbatim>\<open>loop\<close> are not
  initialised (\<^verbatim>\<open>pending\<close> is set at the start of each sweep, \<^verbatim>\<open>loop\<close> is written from
  offset \<^verbatim>\<open>at\<close> before it is read).
\<close>

definition loop_start :: "'s \<Rightarrow> 's sweep_state" where
  "loop_start x = \<lparr>pending = 0, loop = [], at = 0, calls = [], xst = x\<rparr>"

text \<open>
  The loop that frees the open debugging streams: each is closed and its record removed
  from the list.
\<close>

definition free_open_streams :: "'s world \<Rightarrow> 's world" where
  "free_open_streams w =
    (fold fclose (open_stream (H5_debug_g w)) w)\<lparr>H5_debug_g := (H5_debug_g w)\<lparr>open_stream := []\<rparr>\<rparr>"

definition H5_term_library :: "'s env \<Rightarrow> 's world \<Rightarrow> (unit, 's world) outcome" where
  "H5_term_library E w =
    (if \<not> H5_libinit_g w then Returned () w
     else
       (let w = w\<lparr>H5_libterm_g := True\<rparr>;
            func_set = auto_func E (ext w);
            w = (if H5_atclose_head w \<noteq> [] then
                   (run_atclose E (H5_atclose_head w) w)\<lparr>H5_atclose_head := []\<rparr>
                 else w);
            (s, swept) = term_loop E 0 [] (loop_start (ext w));
            w = w\<lparr>ext := xst s, sweep_log := sweep_log w @ swept\<rparr>;
            w = (if pending s \<noteq> 0 \<and> func_set then fputs (infinite_loop_report (loop s)) w else w)
        in if pending s \<noteq> 0 \<and> func_set \<and> \<not> NDEBUG E then Aborted w
           else
             (let w = free_open_streams w;
                  w = w\<lparr>H5_libterm_g := False\<rparr>;
                  w = w\<lparr>H5_libinit_g := False\<rparr>
              in Returned () w)))"

section \<open>The public entry points\<close>

text \<open>
  \<^verbatim>\<open>H5dont_atexit\<close>, with \<^verbatim>\<open>FUNC_ENTER_API_NOINIT_NOERR\<close>: the library is not
  initialised by this call.
\<close>

definition H5dont_atexit :: "'s world \<Rightarrow> (herr_t, 's world) outcome" where
  "H5dont_atexit w =
    (if H5_dont_atexit_g w then Returned FAIL w
     else Returned SUCCEED (w\<lparr>H5_dont_atexit_g := True\<rparr>))"

text \<open>\<^verbatim>\<open>H5open\<close>: all the work is done on entry.\<close>

definition H5open :: "'s env \<Rightarrow> 's world \<Rightarrow> (herr_t, 's world) outcome" where
  "H5open E w = FUNC_ENTER_API E w"

text \<open>\<^verbatim>\<open>H5atclose\<close>; a null \<^verbatim>\<open>func\<close> is 0.\<close>

definition H5atclose :: "'s env \<Rightarrow> nat \<Rightarrow> nat \<Rightarrow> 's world \<Rightarrow> (herr_t, 's world) outcome" where
  "H5atclose E fn cx w =
    (case FUNC_ENTER_API E w of
       Aborted w' \<Rightarrow> Aborted w'
     | Returned r w' \<Rightarrow>
         if r < 0 then Returned FAIL w'
         else if fn = 0 then Returned FAIL w'
         else
           (let (allocated, x) = H5FL_MALLOC E (ext w');
                w' = w'\<lparr>ext := x\<rparr>
            in if \<not> allocated then Returned FAIL w'
               else Returned SUCCEED
                      (w'\<lparr>H5_atclose_head := \<lparr>func = fn, ctx = cx\<rparr> # H5_atclose_head w'\<rparr>)))"

text \<open>
  \<^verbatim>\<open>H5close\<close>: \<^verbatim>\<open>FUNC_ENTER_API_NAMECHECK_ONLY\<close> does not initialise the library, and
  the value returned is the constant \<^verbatim>\<open>SUCCEED\<close>.
\<close>

definition H5close :: "'s env \<Rightarrow> 's world \<Rightarrow> (herr_t, 's world) outcome" where
  "H5close E w =
    (case H5_term_library E w of
       Aborted w' \<Rightarrow> Aborted w'
     | Returned _ w' \<Rightarrow> Returned SUCCEED w')"

text \<open>A sequence of calls of the entry points by the application, until the process is aborted.\<close>

datatype api_call =
    Call_H5open
  | Call_H5close
  | Call_H5dont_atexit
  | Call_H5atclose nat nat
  | Call_H5check_version nat nat nat

fun do_call :: "'s env \<Rightarrow> api_call \<Rightarrow> 's world \<Rightarrow> (herr_t, 's world) outcome" where
  "do_call E Call_H5open w = H5open E w"
| "do_call E Call_H5close w = H5close E w"
| "do_call E Call_H5dont_atexit w = H5dont_atexit w"
| "do_call E (Call_H5atclose fn cx) w = H5atclose E fn cx w"
| "do_call E (Call_H5check_version majnum minnum relnum) w = H5check_version E majnum minnum relnum w"

fun api_calls :: "'s env \<Rightarrow> api_call list \<Rightarrow> 's world \<Rightarrow> (herr_t list, 's world) outcome" where
  "api_calls E [] w = Returned [] w"
| "api_calls E (c # cs) w =
    (case do_call E c w of
       Aborted w' \<Rightarrow> Aborted w'
     | Returned r w' \<Rightarrow>
         (case api_calls E cs w' of
            Aborted w'' \<Rightarrow> Aborted w''
          | Returned rs w'' \<Rightarrow> Returned (r # rs) w''))"

text \<open>\<^verbatim>\<open>H5_init_library\<close> called \<open>n\<close> times in a row.\<close>

fun init_times :: "'s env \<Rightarrow> nat \<Rightarrow> 's world \<Rightarrow> (herr_t list, 's world) outcome" where
  "init_times E 0 w = Returned [] w"
| "init_times E (Suc n) w =
    (case H5_init_library E w of
       Aborted w' \<Rightarrow> Aborted w'
     | Returned r w' \<Rightarrow>
         (case init_times E n w' of
            Aborted w'' \<Rightarrow> Aborted w''
          | Returned rs w'' \<Rightarrow> Returned (r # rs) w''))"

text \<open>The state in which a call ends, by return or by abort.\<close>

fun final_world :: "('a, 'w) outcome \<Rightarrow> 'w" where
  "final_world (Aborted w) = w"
| "final_world (Returned r w) = w"

fun is_aborted :: "('a, 'w) outcome \<Rightarrow> bool" where
  "is_aborted (Aborted w) = True"
| "is_aborted (Returned r w) = False"

text \<open>Successive registrations with \<^verbatim>\<open>H5atclose\<close>, each of which succeeds.\<close>

fun register_all :: "'s env \<Rightarrow> (nat \<times> nat) list \<Rightarrow> 's world \<Rightarrow> 's world option" where
  "register_all E [] w = Some w"
| "register_all E ((fn, cx) # cbs) w =
    (case H5atclose E fn cx w of
       Returned r w' \<Rightarrow> if r = SUCCEED then register_all E cbs w' else None
     | Aborted w' \<Rightarrow> None)"

section \<open>The order of the shutdown, as the specification and as the code have it\<close>

text \<open>
  The phases of the specification (section 4.7): 1 the event sets, 2 links, 3 the "top"
  shutdown, 4 files, 5 property lists, 6 the "bottom" shutdown, 7 the metadata cache and the
  pluggable interfaces, 8 the plugin framework, errors, identifiers, skip lists, free lists
  and the API context.
\<close>

fun spec_phase :: "H5_pkg \<Rightarrow> nat" where
  "spec_phase H5ES = 1"
| "spec_phase H5L = 2"
| "spec_phase H5A_top = 3"
| "spec_phase H5D_top = 3"
| "spec_phase H5G_top = 3"
| "spec_phase H5M_top = 3"
| "spec_phase H5S_top = 3"
| "spec_phase H5T_top = 3"
| "spec_phase H5F = 4"
| "spec_phase H5P = 5"
| "spec_phase H5A = 6"
| "spec_phase H5D = 6"
| "spec_phase H5G = 6"
| "spec_phase H5M = 6"
| "spec_phase H5S = 6"
| "spec_phase H5T = 6"
| "spec_phase H5AC = 7"
| "spec_phase H5Z = 7"
| "spec_phase H5FD = 7"
| "spec_phase H5VL = 7"
| "spec_phase H5PL = 8"
| "spec_phase H5E = 8"
| "spec_phase H5I = 8"
| "spec_phase H5SL = 8"
| "spec_phase H5FL = 8"
| "spec_phase H5CX = 8"

text \<open>
  The guards of the code: \<open>gate_of F\<close> counts the tests \<^verbatim>\<open>if (pending == 0)\<close> that
  stand between the start of a sweep and the call of \<open>F\<close>.
\<close>

fun gate_of :: "H5_pkg \<Rightarrow> nat" where
  "gate_of H5ES = 0"
| "gate_of H5L = 1"
| "gate_of H5A_top = 1"
| "gate_of H5D_top = 1"
| "gate_of H5G_top = 1"
| "gate_of H5M_top = 1"
| "gate_of H5S_top = 1"
| "gate_of H5T_top = 1"
| "gate_of H5F = 2"
| "gate_of H5P = 3"
| "gate_of H5A = 4"
| "gate_of H5D = 4"
| "gate_of H5G = 4"
| "gate_of H5M = 4"
| "gate_of H5S = 4"
| "gate_of H5T = 4"
| "gate_of H5AC = 5"
| "gate_of H5Z = 5"
| "gate_of H5FD = 5"
| "gate_of H5VL = 5"
| "gate_of H5PL = 6"
| "gate_of H5E = 7"
| "gate_of H5I = 8"
| "gate_of H5SL = 9"
| "gate_of H5FL = 10"
| "gate_of H5CX = 11"

text \<open>A guarded block of calls.\<close>

definition gate :: "'s env \<Rightarrow> H5_pkg list \<Rightarrow> 's sweep_state \<Rightarrow> 's sweep_state" where
  "gate E Fs = if_pending_0 (stmts (map (DOWN E) Fs))"

text \<open>
  What holds of a sweep before the guard number \<open>k\<close>: \<^verbatim>\<open>pending\<close> is the sum of the
  results so far, as an \<^verbatim>\<open>int\<close>; only functions before guard \<open>k\<close> were called; while
  \<^verbatim>\<open>pending\<close> is 0 all of them were called; and whenever a function was called, all
  functions before its guard were called, with result 0 if no result of the sweep is
  negative and their sum is at most \<^verbatim>\<open>INT_MAX\<close>.
\<close>

definition sweep_inv :: "nat \<Rightarrow> 's sweep_state \<Rightarrow> bool" where
  "sweep_inv k s \<longleftrightarrow>
     pending s = int_wrap (sum_list (map snd (calls s))) \<and>
     (\<forall>c \<in> set (calls s). gate_of (fst c) < k) \<and>
     (pending s = 0 \<longrightarrow> (\<forall>g. gate_of g < k \<longrightarrow> g \<in> fst ` set (calls s))) \<and>
     (\<forall>c \<in> set (calls s). \<forall>g. gate_of g < gate_of (fst c) \<longrightarrow>
         g \<in> fst ` set (calls s) \<and>
         ((\<forall>d \<in> set (calls s). 0 \<le> snd d) \<and> sum_list (map snd (calls s)) < 2147483648 \<longrightarrow>
            (\<forall>m. (g, m) \<in> set (calls s) \<longrightarrow> m = 0)))"

section \<open>Example environments\<close>

text \<open>
  An environment in which nothing is pending and nothing fails: a release build of version
  1.14.6 without MPI and threads, no environment variables.  The state of the collaborators
  is a number that no collaborator changes.
\<close>

definition quiet_env :: "nat env" where
  "quiet_env =
    \<lparr>term_package = (\<lambda>F x. (0, x)),
     init_call = (\<lambda>f x. (0, x)),
     user_cb = (\<lambda>fn cx x. x),
     auto_func = (\<lambda>x. True),
     H5FL_MALLOC = (\<lambda>x. (True, x)),
     H5MM_malloc = (\<lambda>x. (True, x)),
     HDfdopen = (\<lambda>fd x. (True, x)),
     mpi_attach = (\<lambda>x. (True, x)),
     getenv = (\<lambda>v. None),
     NDEBUG = True,
     H5_HAVE_PARALLEL = False,
     H5_HAVE_THREADSAFE_API = False,
     H5_VERS_MAJOR = 1,
     H5_VERS_MINOR = 14,
     H5_VERS_RELEASE = 6,
     H5_VERS_SUBRELEASE = [],
     H5_VERS_INFO = ''HDF5 library version: 1.14.6'',
     H5build_settings = ''SUMMARY OF THE HDF5 CONFIGURATION\<newline>''\<rparr>"

text \<open>The same, but a named \<^verbatim>\<open>term_package\<close> always has one thing pending.\<close>

definition stuck_env :: "H5_pkg \<Rightarrow> nat env" where
  "stuck_env K = quiet_env\<lparr>term_package := (\<lambda>F x. (if F = K then 1 else 0, x))\<rparr>"

text \<open>A build without \<^verbatim>\<open>NDEBUG\<close> in which the event-set package is stuck.\<close>

definition debug_stuck_env :: "nat env" where
  "debug_stuck_env = (stuck_env H5ES)\<lparr>NDEBUG := False\<rparr>"

text \<open>
  The quiet environment with callbacks that leave a trace in the state of the collaborators:
  a callback appends the number of its function, as a decimal digit, to the state.
\<close>

definition tracing_env :: "nat env" where
  "tracing_env = quiet_env\<lparr>user_cb := (\<lambda>fn cx x. 10 * x + fn)\<rparr>"

text \<open>The globals when the process starts.\<close>

definition process_start :: "'s \<Rightarrow> 's world" where
  "process_start x =
    \<lparr>H5_libinit_g = False, H5_libterm_g = False, H5_dont_atexit_g = False,
     H5_debug_g = \<lparr>trace = None, ttop = False, ttimes = False,
                   pkg = replicate H5_NPKGS \<lparr>name = [], stream = None\<rparr>, open_stream = []\<rparr>,
     H5_atclose_head = [], checked = False, disable_version_check = 0,
     atexit_fns = [], stderr_out = [], stderr_closed = False, ext = x, cb_log = [],
     sweep_log = []\<rparr>"

text \<open>The quiet environment with \<^verbatim>\<open>HDF5_DISABLE_VERSION_CHECK\<close> set.\<close>

definition override_env :: "string \<Rightarrow> nat env" where
  "override_env v =
    quiet_env\<lparr>getenv := (\<lambda>n. if n = ''HDF5_DISABLE_VERSION_CHECK'' then Some v else None)\<rparr>"

section \<open>What a call leaves unchanged\<close>

text \<open>
  \<open>debug_frame w w'\<close>: from \<open>w\<close> to \<open>w'\<close> only the debug settings, the output on
  \<^verbatim>\<open>stderr\<close>, whether it is closed, and the state of the collaborators have changed.  \<open>init_frame w w'\<close>: the
  shutdown flag, the atclose list and the two records are the same, and the flag
  \<^verbatim>\<open>H5_dont_atexit_g\<close> is still set if it was.
\<close>

definition debug_frame :: "'s world \<Rightarrow> 's world \<Rightarrow> bool" where
  "debug_frame w w' \<longleftrightarrow>
     H5_libinit_g w' = H5_libinit_g w \<and> H5_libterm_g w' = H5_libterm_g w \<and>
     H5_dont_atexit_g w' = H5_dont_atexit_g w \<and> H5_atclose_head w' = H5_atclose_head w \<and>
     checked w' = checked w \<and> disable_version_check w' = disable_version_check w \<and>
     atexit_fns w' = atexit_fns w \<and> cb_log w' = cb_log w \<and> sweep_log w' = sweep_log w"

definition init_frame :: "'s world \<Rightarrow> 's world \<Rightarrow> bool" where
  "init_frame w w' \<longleftrightarrow>
     H5_libterm_g w' = H5_libterm_g w \<and> H5_atclose_head w' = H5_atclose_head w \<and>
     cb_log w' = cb_log w \<and> sweep_log w' = sweep_log w \<and>
     (H5_dont_atexit_g w \<longrightarrow> H5_dont_atexit_g w')"

text \<open>
  \<open>version_frame w w'\<close>: from \<open>w\<close> to \<open>w'\<close> only the static variables of
  \<^verbatim>\<open>H5_check_version\<close> and the output on \<^verbatim>\<open>stderr\<close> have changed.
\<close>

definition version_frame :: "'s world \<Rightarrow> 's world \<Rightarrow> bool" where
  "version_frame w w' \<longleftrightarrow>
     H5_libinit_g w' = H5_libinit_g w \<and> H5_libterm_g w' = H5_libterm_g w \<and>
     H5_dont_atexit_g w' = H5_dont_atexit_g w \<and> H5_atclose_head w' = H5_atclose_head w \<and>
     H5_debug_g w' = H5_debug_g w \<and> atexit_fns w' = atexit_fns w \<and> ext w' = ext w \<and>
     cb_log w' = cb_log w \<and> sweep_log w' = sweep_log w \<and> stderr_closed w' = stderr_closed w"

section \<open>The names in the report of a shutdown that does not converge\<close>






text \<open>
  The value of \<^verbatim>\<open>pending\<close> when the loop of \<^verbatim>\<open>H5_term_library\<close> ends, and the sweeps
  that the loop has made, the library being initialised: the loop starts in the state in
  which the atclose callbacks leave the collaborators.
\<close>

definition shutdown_pending :: "'s env \<Rightarrow> 's world \<Rightarrow> int" where
  "shutdown_pending E w =
    pending (fst (term_loop E 0 [] (loop_start (ext (run_atclose E (H5_atclose_head w) w)))))"






section \<open>Lemmas on the sweep\<close>

lemma stmts_Nil: "stmts [] s = s"
  by (simp add: stmts_def)

lemma stmts_Cons: "stmts (f # fs) s = stmts fs (f s)"
  by (simp add: stmts_def)

lemma if_pending_0_skip: "pending s \<noteq> 0 \<Longrightarrow> if_pending_0 body s = s"
  by (simp add: if_pending_0_def)

lemma if_pending_0_run: "pending s = 0 \<Longrightarrow> if_pending_0 body s = body s"
  by (simp add: if_pending_0_def)

lemma sweep_tail:
  "if_pending_0 (stmts [a, b, c, d, if_pending_0 p, if_pending_0 e, if_pending_0 i,
       if_pending_0 sl, if_pending_0 fl, if_pending_0 cx]) s =
   stmts [if_pending_0 (stmts [a, b, c, d]), if_pending_0 p, if_pending_0 e, if_pending_0 i,
       if_pending_0 sl, if_pending_0 fl, if_pending_0 cx] s"
proof (cases "pending s = 0")
  case True
  then show ?thesis by (simp add: if_pending_0_run stmts_Cons stmts_Nil)
next
  case False
  then show ?thesis by (simp add: if_pending_0_skip stmts_Cons stmts_Nil)
qed

text \<open>A sweep is a row of guarded blocks: the first guard is passed, the nested ones flatten.\<close>

lemma sweep_gates:
  fixes s0 :: "'s sweep_state"
  shows "sweep E s0 =
    stmts (map (gate E)
     [[H5ES],
      [H5L, H5A_top, H5D_top, H5G_top, H5M_top, H5S_top, H5T_top],
      [H5F], [H5P],
      [H5A, H5D, H5G, H5M, H5S, H5T],
      [H5AC, H5Z, H5FD, H5VL],
      [H5PL], [H5E], [H5I], [H5SL], [H5FL], [H5CX]]) (s0\<lparr>pending := 0\<rparr>)"
proof -
  have one: "stmts [f] = f" for f :: "'s sweep_state \<Rightarrow> 's sweep_state"
    by (rule ext) (simp add: stmts_Cons stmts_Nil)
  have first: "if_pending_0 f (s0\<lparr>pending := 0\<rparr>) = f (s0\<lparr>pending := 0\<rparr>)"
    for f :: "'s sweep_state \<Rightarrow> 's sweep_state"
    by (simp add: if_pending_0_def)
  show ?thesis
    unfolding sweep_def
    by (simp add: stmts_Cons stmts_Nil sweep_tail gate_def one first)
qed

lemma int_wrap_id: "- 2147483648 \<le> v \<Longrightarrow> v < 2147483648 \<Longrightarrow> int_wrap v = v"
  by (simp add: int_wrap_def)

lemma int_wrap_add_left: "int_wrap (int_wrap a + b) = int_wrap (a + b)"
proof -
  have "(int_wrap a + b + 2147483648) mod 4294967296 = (a + b + 2147483648) mod 4294967296"
    unfolding int_wrap_def by (simp add: mod_simps algebra_simps)
  then show ?thesis by (simp add: int_wrap_def)
qed

lemma int_wrap_add_right: "int_wrap (a + int_wrap b) = int_wrap (a + b)"
  using int_wrap_add_left [of b a] by (simp add: add.commute)

lemma int_wrap_idem: "int_wrap (int_wrap a) = int_wrap a"
  using int_wrap_add_left [of a 0] by simp

lemma int_wrap_small:
  "int_wrap 0 = 0" "int_wrap 1 = 1" "int_wrap 2 = 2" "int_wrap 3 = 3" "int_wrap 4 = 4"
  "int_wrap 5 = 5" "int_wrap 6 = 6" "int_wrap 7 = 7"
  by (simp_all add: int_wrap_def)

lemma calls_DOWN:
  "calls (DOWN E F s) = calls s @ [(F, int_wrap (fst (term_package E F (xst s))))]"
  by (simp add: DOWN_def Let_def split: prod.split)

lemma pending_DOWN:
  "pending (DOWN E F s) = int_wrap (pending s + fst (term_package E F (xst s)))"
  by (simp add: DOWN_def Let_def int_wrap_add_right split: prod.split)

lemma fold_DOWN:
  assumes "pending s = int_wrap p"
  shows "\<exists>ns. length ns = length Fs \<and> calls (stmts (map (DOWN E) Fs) s) = calls s @ zip Fs ns \<and>
        pending (stmts (map (DOWN E) Fs) s) = int_wrap (p + sum_list ns)"
  using assms
proof (induction Fs arbitrary: s p)
  case Nil
  then show ?case by (simp add: stmts_Nil)
next
  case (Cons F Fs)
  let ?r = "fst (term_package E F (xst s))"
  let ?n = "int_wrap ?r"
  have "pending (DOWN E F s) = int_wrap (p + ?n)"
    using Cons.prems by (simp add: pending_DOWN int_wrap_add_left int_wrap_add_right)
  from Cons.IH [OF this] obtain ns where
    ns: "length ns = length Fs" "calls (stmts (map (DOWN E) Fs) (DOWN E F s)) = calls (DOWN E F s) @ zip Fs ns"
      "pending (stmts (map (DOWN E) Fs) (DOWN E F s)) = int_wrap (p + ?n + sum_list ns)"
    by blast
  have "length (?n # ns) = length (F # Fs)" using ns by simp
  moreover have "calls (stmts (map (DOWN E) (F # Fs)) s) = calls s @ zip (F # Fs) (?n # ns)"
    using ns by (simp add: calls_DOWN stmts_Cons)
  moreover have "pending (stmts (map (DOWN E) (F # Fs)) s) = int_wrap (p + sum_list (?n # ns))"
    using ns by (simp add: stmts_Cons add.assoc)
  ultimately show ?case by blast
qed

lemma sum_list_zero_nonneg:
  fixes xs :: "int list"
  shows "sum_list xs = 0 \<Longrightarrow> \<forall>x \<in> set xs. 0 \<le> x \<Longrightarrow> x \<in> set xs \<Longrightarrow> x = 0"
proof (induction xs)
  case Nil
  then show ?case by simp
next
  case (Cons a xs)
  have a: "0 \<le> a" and s: "0 \<le> sum_list xs"
    using Cons.prems(2) by (simp_all add: sum_list_nonneg)
  have "a + sum_list xs = 0" using Cons.prems(1) by simp
  with a s have "a = 0" "sum_list xs = 0" by linarith+
  then show ?case using Cons by auto
qed

lemma gate_inv:
  assumes inv: "sweep_inv k s" and blk: "\<forall>F. F \<in> set Fs \<longleftrightarrow> gate_of F = k"
  shows "sweep_inv (Suc k) (gate E Fs s)"
proof (cases "pending s = 0")
  case False
  then have "gate E Fs s = s" by (simp add: gate_def if_pending_0_def)
  moreover have "sweep_inv (Suc k) s"
    using inv False unfolding sweep_inv_def by (simp add: less_Suc_eq)
  ultimately show ?thesis by simp
next
  case True
  have "pending s = int_wrap (sum_list (map snd (calls s)))"
    using inv by (simp add: sweep_inv_def)
  then obtain ns where ns: "length ns = length Fs"
      "calls (stmts (map (DOWN E) Fs) s) = calls s @ zip Fs ns"
      "pending (stmts (map (DOWN E) Fs) s) = int_wrap (sum_list (map snd (calls s)) + sum_list ns)"
    using fold_DOWN by blast
  let ?s' = "stmts (map (DOWN E) Fs) s"
  have g: "gate E Fs s = ?s'" using True by (simp add: gate_def if_pending_0_def)
  have fst_new: "fst ` set (zip Fs ns) = set Fs"
    using ns(1) by (metis map_fst_zip set_map)
  have snd_new: "map snd (zip Fs ns) = ns"
    using ns(1) by simp
  have old_zero: "m = 0"
    if "\<forall>d \<in> set (calls ?s'). 0 \<le> snd d" "sum_list (map snd (calls ?s')) < 2147483648"
       "(h, m) \<in> set (calls s)" for h m
  proof -
    have nn: "\<forall>x \<in> set (map snd (calls s)). 0 \<le> x" using that(1) ns(2) by auto
    have "\<forall>x \<in> set ns. 0 \<le> x"
    proof
      fix x assume "x \<in> set ns"
      then have "x \<in> snd ` set (zip Fs ns)" using snd_new by (metis set_map)
      then show "0 \<le> x" using that(1) ns(2) by auto
    qed
    then have "0 \<le> sum_list ns" by (simp add: sum_list_nonneg)
    moreover have "sum_list (map snd (calls s)) + sum_list ns < 2147483648"
      using that(2) ns(2) snd_new by simp
    moreover have "0 \<le> sum_list (map snd (calls s))"
      using nn by (intro sum_list_nonneg) auto
    ultimately have "int_wrap (sum_list (map snd (calls s))) = sum_list (map snd (calls s))"
      by (intro int_wrap_id) linarith+
    then have "sum_list (map snd (calls s)) = 0" using inv True by (simp add: sweep_inv_def)
    moreover have "m \<in> set (map snd (calls s))" using that(3) by force
    ultimately show ?thesis using nn sum_list_zero_nonneg by blast
  qed
  have old_all: "g \<in> fst ` set (calls s)" if "gate_of g < k" for g
    using inv True that by (simp add: sweep_inv_def)
  have p1: "pending ?s' = int_wrap (sum_list (map snd (calls ?s')))"
    using ns(2,3) snd_new by simp
  have p2: "\<forall>c \<in> set (calls ?s'). gate_of (fst c) < Suc k"
  proof
    fix c assume "c \<in> set (calls ?s')"
    then consider "c \<in> set (calls s)" | "c \<in> set (zip Fs ns)" using ns(2) by auto
    then show "gate_of (fst c) < Suc k"
    proof cases
      case 1 then show ?thesis using inv by (auto simp: sweep_inv_def less_Suc_eq)
    next
      case 2
      then have "fst c \<in> set Fs" using fst_new by force
      then show ?thesis using blk by simp
    qed
  qed
  have all_new: "g \<in> fst ` set (calls ?s')" if "gate_of g < Suc k" for g
  proof (cases "gate_of g < k")
    case True
    then show ?thesis using old_all ns(2) by auto
  next
    case False
    then have "gate_of g = k" using that by simp
    then have "g \<in> set Fs" using blk by simp
    then show ?thesis using fst_new ns(2) by auto
  qed
  have p4: "\<forall>c \<in> set (calls ?s'). \<forall>g. gate_of g < gate_of (fst c) \<longrightarrow>
         g \<in> fst ` set (calls ?s') \<and>
         ((\<forall>d \<in> set (calls ?s'). 0 \<le> snd d) \<and> sum_list (map snd (calls ?s')) < 2147483648 \<longrightarrow>
            (\<forall>m. (g, m) \<in> set (calls ?s') \<longrightarrow> m = 0))"
  proof (intro ballI allI impI conjI)
    fix c g assume c: "c \<in> set (calls ?s')" and lt: "gate_of g < gate_of (fst c)"
    have "gate_of (fst c) < Suc k" using p2 c by blast
    then have gk: "gate_of g < k" using lt by simp
    show "g \<in> fst ` set (calls ?s')" using all_new gk by simp
    fix m
    assume nn: "(\<forall>d \<in> set (calls ?s'). 0 \<le> snd d) \<and> sum_list (map snd (calls ?s')) < 2147483648"
      and gm: "(g, m) \<in> set (calls ?s')"
    have "(g, m) \<notin> set (zip Fs ns)"
    proof
      assume "(g, m) \<in> set (zip Fs ns)"
      then have "g \<in> set Fs" by (rule set_zip_leftD)
      then show False using blk gk by simp
    qed
    then have "(g, m) \<in> set (calls s)" using gm ns(2) by auto
    then show "m = 0" using old_zero nn by blast
  qed
  show ?thesis
    unfolding g sweep_inv_def
    apply (intro conjI)
    apply (rule p1)
    apply (rule p2)
    using all_new apply blast
    apply (rule p4)
    done
qed

lemma gate_inv_step:
  assumes "sweep_inv k s" and "\<And>F. F \<in> set Fs \<longleftrightarrow> gate_of F = k" and "k' = Suc k"
  shows "sweep_inv k' (gate E Fs s)"
  using gate_inv [of k s Fs E] assms by simp


lemma sweep_inv_sweep: "sweep_inv 12 (sweep E (s\<lparr>calls := []\<rparr>))"
proof -
  let ?g = "gate E"
  define s0 where "s0 = s\<lparr>calls := [], pending := 0\<rparr>"
  have 0: "sweep_inv 0 s0"
    by (simp add: sweep_inv_def s0_def int_wrap_def)
  define s1 where "s1 = ?g [H5ES] s0"
  define s2 where "s2 = ?g [H5L, H5A_top, H5D_top, H5G_top, H5M_top, H5S_top, H5T_top] s1"
  define s3 where "s3 = ?g [H5F] s2"
  define s4 where "s4 = ?g [H5P] s3"
  define s5 where "s5 = ?g [H5A, H5D, H5G, H5M, H5S, H5T] s4"
  define s6 where "s6 = ?g [H5AC, H5Z, H5FD, H5VL] s5"
  define s7 where "s7 = ?g [H5PL] s6"
  define s8 where "s8 = ?g [H5E] s7"
  define s9 where "s9 = ?g [H5I] s8"
  define s10 where "s10 = ?g [H5SL] s9"
  define s11 where "s11 = ?g [H5FL] s10"
  define s12 where "s12 = ?g [H5CX] s11"
  have "F \<in> set [H5ES] \<longleftrightarrow> gate_of F = 0" for F
    by (cases F) simp_all
  then have 1: "sweep_inv 1 s1" unfolding s1_def
    by (rule gate_inv_step [OF 0]) simp
  have "F \<in> set [H5L, H5A_top, H5D_top, H5G_top, H5M_top, H5S_top, H5T_top] \<longleftrightarrow> gate_of F = 1" for F
    by (cases F) simp_all
  then have 2: "sweep_inv 2 s2" unfolding s2_def
    by (rule gate_inv_step [OF 1]) simp
  have "F \<in> set [H5F] \<longleftrightarrow> gate_of F = 2" for F
    by (cases F) simp_all
  then have 3: "sweep_inv 3 s3" unfolding s3_def
    by (rule gate_inv_step [OF 2]) simp
  have "F \<in> set [H5P] \<longleftrightarrow> gate_of F = 3" for F
    by (cases F) simp_all
  then have 4: "sweep_inv 4 s4" unfolding s4_def
    by (rule gate_inv_step [OF 3]) simp
  have "F \<in> set [H5A, H5D, H5G, H5M, H5S, H5T] \<longleftrightarrow> gate_of F = 4" for F
    by (cases F) simp_all
  then have 5: "sweep_inv 5 s5" unfolding s5_def
    by (rule gate_inv_step [OF 4]) simp
  have "F \<in> set [H5AC, H5Z, H5FD, H5VL] \<longleftrightarrow> gate_of F = 5" for F
    by (cases F) simp_all
  then have 6: "sweep_inv 6 s6" unfolding s6_def
    by (rule gate_inv_step [OF 5]) simp
  have "F \<in> set [H5PL] \<longleftrightarrow> gate_of F = 6" for F
    by (cases F) simp_all
  then have 7: "sweep_inv 7 s7" unfolding s7_def
    by (rule gate_inv_step [OF 6]) simp
  have "F \<in> set [H5E] \<longleftrightarrow> gate_of F = 7" for F
    by (cases F) simp_all
  then have 8: "sweep_inv 8 s8" unfolding s8_def
    by (rule gate_inv_step [OF 7]) simp
  have "F \<in> set [H5I] \<longleftrightarrow> gate_of F = 8" for F
    by (cases F) simp_all
  then have 9: "sweep_inv 9 s9" unfolding s9_def
    by (rule gate_inv_step [OF 8]) simp
  have "F \<in> set [H5SL] \<longleftrightarrow> gate_of F = 9" for F
    by (cases F) simp_all
  then have 10: "sweep_inv 10 s10" unfolding s10_def
    by (rule gate_inv_step [OF 9]) simp
  have "F \<in> set [H5FL] \<longleftrightarrow> gate_of F = 10" for F
    by (cases F) simp_all
  then have 11: "sweep_inv 11 s11" unfolding s11_def
    by (rule gate_inv_step [OF 10]) simp
  have "F \<in> set [H5CX] \<longleftrightarrow> gate_of F = 11" for F
    by (cases F) simp_all
  then have 12: "sweep_inv 12 s12" unfolding s12_def
    by (rule gate_inv_step [OF 11]) simp
  have "sweep E (s\<lparr>calls := []\<rparr>) = s12"
    unfolding sweep_gates
    by (simp add: stmts_Cons stmts_Nil s12_def s11_def s10_def s9_def s8_def s7_def s6_def s5_def
        s4_def s3_def s2_def s1_def s0_def)
  then show ?thesis using 12 by simp
qed

lemma phase_gate:
  assumes "spec_phase G < spec_phase F" and "\<not> (spec_phase G = 2 \<and> spec_phase F = 3)"
  shows "gate_of G < gate_of F"
  using assms by (cases G; cases F; simp)

lemma gate_calls_extend:
  "\<exists>extra. calls (gate E Fs s) = calls s @ extra \<and> fst ` set extra \<subseteq> set Fs"
proof (cases "pending s = 0")
  case True
  then have "pending s = int_wrap 0" by (simp add: int_wrap_def)
  then obtain ns where "calls (stmts (map (DOWN E) Fs) s) = calls s @ zip Fs ns"
    using fold_DOWN by blast
  moreover have "fst ` set (zip Fs ns) \<subseteq> set Fs"
    by (auto dest: set_zip_leftD)
  ultimately show ?thesis using True by (auto simp: gate_def if_pending_0_def)
next
  case False
  then show ?thesis by (simp add: gate_def if_pending_0_def)
qed

lemma gates_calls_extend:
  "\<exists>extra. calls (stmts (map (gate E) Fss) s) = calls s @ extra \<and>
           fst ` set extra \<subseteq> \<Union> (set ` set Fss)"
proof (induction Fss arbitrary: s)
  case Nil
  then show ?case by (simp add: stmts_Nil)
next
  case (Cons Fs Fss)
  obtain e1 where e1: "calls (gate E Fs s) = calls s @ e1" "fst ` set e1 \<subseteq> set Fs"
    using gate_calls_extend by blast
  obtain e2 where e2: "calls (stmts (map (gate E) Fss) (gate E Fs s)) = calls (gate E Fs s) @ e2"
      "fst ` set e2 \<subseteq> \<Union> (set ` set Fss)"
    using Cons.IH by blast
  have "calls (stmts (map (gate E) (Fs # Fss)) s) = calls s @ (e1 @ e2)"
    using e1 e2 by (simp add: stmts_Cons)
  moreover have "fst ` set (e1 @ e2) \<subseteq> \<Union> (set ` set (Fs # Fss))"
    using e1(2) e2(2) by auto
  ultimately show ?case by blast
qed

text \<open>
  When the event-set package returned 0, the link package and the six "top" packages are
  the next to be called, whatever any of them returns.
\<close>

lemma sweep_first_blocks:
  assumes "(H5ES, 0) \<in> set (calls (sweep E (s\<lparr>calls := []\<rparr>)))"
  shows "map fst (take 8 (calls (sweep E (s\<lparr>calls := []\<rparr>)))) =
           [H5ES, H5L, H5A_top, H5D_top, H5G_top, H5M_top, H5S_top, H5T_top]"
proof -
  let ?tops = "[H5L, H5A_top, H5D_top, H5G_top, H5M_top, H5S_top, H5T_top]"
  let ?rest = "[[H5F], [H5P], [H5A, H5D, H5G, H5M, H5S, H5T], [H5AC, H5Z, H5FD, H5VL],
      [H5PL], [H5E], [H5I], [H5SL], [H5FL], [H5CX]]"
  define s0 where "s0 = s\<lparr>calls := [], pending := 0\<rparr>"
  define s1 where "s1 = gate E [H5ES] s0"
  define s2 where "s2 = gate E ?tops s1"
  define n0 where "n0 = int_wrap (fst (term_package E H5ES (xst s0)))"
  have sw: "sweep E (s\<lparr>calls := []\<rparr>) = stmts (map (gate E) ?rest) s2"
    unfolding sweep_gates by (simp add: stmts_Cons stmts_Nil s2_def s1_def s0_def)
  have s1: "calls s1 = [(H5ES, n0)]" "pending s1 = n0"
    by (simp_all add: s1_def gate_def if_pending_0_def stmts_Cons stmts_Nil calls_DOWN pending_DOWN
        s0_def n0_def)
  obtain extra where extra: "calls (stmts (map (gate E) ?rest) s2) = calls s2 @ extra"
      "fst ` set extra \<subseteq> \<Union> (set ` set ?rest)"
    using gates_calls_extend [of E _ s2] by blast
  have noES: "(H5ES, 0) \<notin> set extra"
  proof
    assume "(H5ES, 0) \<in> set extra"
    then have "H5ES \<in> fst ` set extra" by force
    then have "H5ES \<in> \<Union> (set ` set ?rest)" using extra(2) by blast
    then show False by simp
  qed
  have fin: "calls (sweep E (s\<lparr>calls := []\<rparr>)) = calls s2 @ extra"
    using sw extra(1) by (simp only:)
  show ?thesis
  proof (cases "n0 = 0")
    case True
    then have "pending s1 = int_wrap 0" using s1(2) by (simp add: int_wrap_def)
    then obtain ns where ns: "length ns = length ?tops"
        "calls (stmts (map (DOWN E) ?tops) s1) = calls s1 @ zip ?tops ns"
      using fold_DOWN by blast
    define z where "z = zip ?tops ns"
    have p: "pending s1 = 0" using True s1(2) by simp
    have "s2 = stmts (map (DOWN E) ?tops) s1"
      unfolding s2_def gate_def using p by (rule if_pending_0_run)
    then have c2: "calls s2 = (H5ES, 0) # z"
      using True s1(1) ns(2) by (simp only: z_def append_Cons append_Nil)
    have l: "length z = 7" unfolding z_def using ns(1) by simp
    have m: "map fst z = ?tops" unfolding z_def using ns(1) by (simp only: map_fst_zip)
    have "take 8 (calls s2 @ extra) = (H5ES, 0) # z"
      unfolding c2 using l by simp
    then show ?thesis
      unfolding fin using m by simp
  next
    case False
    have p: "pending s1 \<noteq> 0" using False s1(2) by simp
    have "s2 = s1"
      unfolding s2_def gate_def using p by (rule if_pending_0_skip)
    then have "calls (sweep E (s\<lparr>calls := []\<rparr>)) = (H5ES, n0) # extra"
      using fin s1(1) by simp
    then show ?thesis using assms False noES by simp
  qed
qed


text \<open>
  C1 (as amended).  Within one sweep, when no result is negative and the results add up to at
  most \<^verbatim>\<open>INT_MAX\<close> (so that \<^verbatim>\<open>pending\<close> does not overflow): if a function of phase j is
  called, then every function of every earlier phase i was called in that sweep and returned
  0, except for the pair of phase 2 (links) and phase 3 (the "top" shutdown).  The functions
  of phase 3 stand under the same guard as the link package: in every sweep in which the
  event-set package (phase 1) returned 0, the link package and then the six "top" functions
  are called, whatever the link package returned.
\<close>

theorem sweep_later_phase_only_after_quiet_earlier:
  "((\<forall>d \<in> set (calls (sweep E (s\<lparr>calls := []\<rparr>))). 0 \<le> snd d) \<and>
    sum_list (map snd (calls (sweep E (s\<lparr>calls := []\<rparr>)))) < 2147483648 \<and>
    (F, n) \<in> set (calls (sweep E (s\<lparr>calls := []\<rparr>))) \<and>
    spec_phase G < spec_phase F \<and> \<not> (spec_phase G = 2 \<and> spec_phase F = 3) \<longrightarrow>
      (G, 0) \<in> set (calls (sweep E (s\<lparr>calls := []\<rparr>))) \<and>
      (\<forall>m. (G, m) \<in> set (calls (sweep E (s\<lparr>calls := []\<rparr>))) \<longrightarrow> m = 0)) \<and>
   ((H5ES, 0) \<in> set (calls (sweep E (s\<lparr>calls := []\<rparr>))) \<longrightarrow>
      map fst (take 8 (calls (sweep E (s\<lparr>calls := []\<rparr>)))) =
        [H5ES, H5L, H5A_top, H5D_top, H5G_top, H5M_top, H5S_top, H5T_top])"
proof (intro conjI impI)
  let ?cs = "calls (sweep E (s\<lparr>calls := []\<rparr>))"
  assume a: "(\<forall>d \<in> set ?cs. 0 \<le> snd d) \<and> sum_list (map snd ?cs) < 2147483648 \<and>
    (F, n) \<in> set ?cs \<and> spec_phase G < spec_phase F \<and> \<not> (spec_phase G = 2 \<and> spec_phase F = 3)"
  have lt: "gate_of G < gate_of (fst (F, n))"
    using phase_gate [of G F] a by simp
  have inv: "sweep_inv 12 (sweep E (s\<lparr>calls := []\<rparr>))"
    by (rule sweep_inv_sweep)
  have Fn: "(F, n) \<in> set ?cs" using a by simp
  from inv Fn lt have called: "G \<in> fst ` set ?cs"
    and zero: "(\<forall>d \<in> set ?cs. 0 \<le> snd d) \<and> sum_list (map snd ?cs) < 2147483648 \<longrightarrow>
                 (\<forall>m. (G, m) \<in> set ?cs \<longrightarrow> m = 0)"
    unfolding sweep_inv_def by blast+
  from zero a have z: "\<forall>m. (G, m) \<in> set ?cs \<longrightarrow> m = 0" by blast
  from called obtain m where "(G, m) \<in> set ?cs" by force
  with z show "(G, 0) \<in> set ?cs" by blast
  from z show "\<forall>m. (G, m) \<in> set ?cs \<longrightarrow> m = 0" .
next
  assume "(H5ES, 0) \<in> set (calls (sweep E (s\<lparr>calls := []\<rparr>)))"
  then show "map fst (take 8 (calls (sweep E (s\<lparr>calls := []\<rparr>)))) =
        [H5ES, H5L, H5A_top, H5D_top, H5G_top, H5M_top, H5S_top, H5T_top]"
    by (rule sweep_first_blocks)
qed

lemma calls_sweep_stuck_F:
  "calls (sweep (stuck_env H5F) (loop_start 0\<lparr>calls := []\<rparr>)) =
    [(H5ES, 0), (H5L, 0), (H5A_top, 0), (H5D_top, 0), (H5G_top, 0), (H5M_top, 0), (H5S_top, 0),
     (H5T_top, 0), (H5F, 1)]"
  by (simp add: sweep_def stmts_def if_pending_0_def DOWN_def stuck_env_def quiet_env_def
      loop_start_def int_wrap_small)

text \<open>An environment in which the link package returns 5 and the others 0.\<close>

lemma calls_sweep_links_5:
  "calls (sweep (quiet_env\<lparr>term_package := (\<lambda>F x. (if F = H5L then 5 else 0, x))\<rparr>)
      (loop_start 0\<lparr>calls := []\<rparr>)) =
    [(H5ES, 0), (H5L, 5), (H5A_top, 0), (H5D_top, 0), (H5G_top, 0), (H5M_top, 0), (H5S_top, 0),
     (H5T_top, 0)]"
  by (simp add: sweep_def stmts_def if_pending_0_def DOWN_def quiet_env_def
      loop_start_def int_wrap_small)

theorem sweep_later_phase_only_after_quiet_earlier_witness:
  "(H5F, 1) \<in> set (calls (sweep (stuck_env H5F) (loop_start 0\<lparr>calls := []\<rparr>))) \<and>
   spec_phase H5L < spec_phase H5F \<and>
   (H5L, 0) \<in> set (calls (sweep (stuck_env H5F) (loop_start 0\<lparr>calls := []\<rparr>))) \<and>
   (H5L, 5) \<in> set (calls (sweep (quiet_env\<lparr>term_package := (\<lambda>F x. (if F = H5L then 5 else 0, x))\<rparr>)
      (loop_start 0\<lparr>calls := []\<rparr>))) \<and>
   map fst (take 8 (calls (sweep (quiet_env\<lparr>term_package := (\<lambda>F x. (if F = H5L then 5 else 0, x))\<rparr>)
      (loop_start 0\<lparr>calls := []\<rparr>)))) =
     [H5ES, H5L, H5A_top, H5D_top, H5G_top, H5M_top, H5S_top, H5T_top]"
proof -
  note t1 = sweep_later_phase_only_after_quiet_earlier
    [of "stuck_env H5F" "loop_start 0" H5F 1 H5L, THEN conjunct1]
  note t2 = sweep_later_phase_only_after_quiet_earlier
    [of "quiet_env\<lparr>term_package := (\<lambda>F x. (if F = H5L then 5 else 0, x))\<rparr>" "loop_start 0",
     THEN conjunct2]
  have a: "(H5L, 0) \<in> set (calls (sweep (stuck_env H5F) (loop_start 0\<lparr>calls := []\<rparr>)))"
    using t1 by (simp add: calls_sweep_stuck_F)
  have b: "map fst (take 8 (calls (sweep
      (quiet_env\<lparr>term_package := (\<lambda>F x. (if F = H5L then 5 else 0, x))\<rparr>)
      (loop_start 0\<lparr>calls := []\<rparr>)))) =
     [H5ES, H5L, H5A_top, H5D_top, H5G_top, H5M_top, H5S_top, H5T_top]"
    using t2 by (simp add: calls_sweep_links_5)
  show ?thesis
    using a b by (simp add: calls_sweep_stuck_F calls_sweep_links_5)
qed

text \<open>
  C1 as it is written fails: the link package (phase 2) returns 1, and the six "top"
  functions of phase 3 are called in the same sweep all the same.
\<close>

theorem sweep_phase_3_after_pending_phase_2:
  "calls (sweep (stuck_env H5L) (loop_start 0\<lparr>calls := []\<rparr>)) =
    [(H5ES, 0), (H5L, 1), (H5A_top, 0), (H5D_top, 0), (H5G_top, 0), (H5M_top, 0), (H5S_top, 0),
     (H5T_top, 0)] \<and>
   spec_phase H5L = 2 \<and> spec_phase H5A_top = 3"
  by (simp add: sweep_def stmts_def if_pending_0_def DOWN_def stuck_env_def quiet_env_def
      loop_start_def int_wrap_small)
section \<open>The number of sweeps\<close>

declare term_loop.simps [simp del]

lemma term_loop_never_quiet:
  assumes "\<And>s. pending (sweep E s) \<noteq> 0" and "ntries \<le> 100"
  shows "length (snd (term_loop E ntries swept s)) = length swept + (101 - ntries) \<and>
         pending (fst (term_loop E ntries swept s)) \<noteq> 0"
  using assms
proof (induction E ntries swept s rule: term_loop.induct)
  case (1 E ntries swept s)
  let ?s = "sweep E (s\<lparr>calls := []\<rparr>)"
  have p: "pending ?s \<noteq> 0" by (rule "1.prems"(1))
  show ?case
  proof (cases "ntries < 100")
    case True
    have eq: "term_loop E ntries swept s = term_loop E (ntries + 1) (swept @ [calls ?s]) ?s"
      using p True by (subst term_loop.simps) (simp add: Let_def)
    have "length (snd (term_loop E (ntries + 1) (swept @ [calls ?s]) ?s)) =
            length (swept @ [calls ?s]) + (101 - (ntries + 1)) \<and>
          pending (fst (term_loop E (ntries + 1) (swept @ [calls ?s]) ?s)) \<noteq> 0"
      using "1.IH" [OF refl refl _ "1.prems"(1)] p True by simp
    then show ?thesis using True by (simp add: eq)
  next
    case False
    then have n: "ntries = 100" using "1.prems"(2) by simp
    have eq: "term_loop E ntries swept s = (?s, swept @ [calls ?s])"
      using False by (subst term_loop.simps) (simp add: Let_def)
    show ?thesis unfolding eq using p n by simp
  qed
qed

lemma sweep_stuck_ES: "pending (sweep (stuck_env H5ES) s) \<noteq> 0"
proof -
  have "pending (DOWN (stuck_env H5ES) H5ES (s\<lparr>pending := 0\<rparr>)) = 1"
    by (simp add: pending_DOWN stuck_env_def quiet_env_def int_wrap_small)
  then show ?thesis
    by (simp add: sweep_def stmts_Cons stmts_Nil if_pending_0_skip)
qed

text \<open>
  C2.  The event-set package always has one thing pending, so that \<^verbatim>\<open>pending\<close> is positive
  after every sweep.  The library is initialised and is shut down in a release build: the
  loop makes 101 sweeps, not 100, and the call returns.
\<close>

theorem stuck_shutdown_makes_101_sweeps:
  "length (sweep_log (final_world
      (H5_term_library (stuck_env H5ES) ((process_start 0)\<lparr>H5_libinit_g := True\<rparr>)))) = 101 \<and>
   \<not> is_aborted (H5_term_library (stuck_env H5ES) ((process_start 0)\<lparr>H5_libinit_g := True\<rparr>))"
proof -
  let ?r = "term_loop (stuck_env H5ES) 0 [] (loop_start (0::nat))"
  have len: "length (snd ?r) = 101"
    using term_loop_never_quiet [of "stuck_env H5ES" 0 "[]" "loop_start 0", OF sweep_stuck_ES]
    by simp
  have nd: "NDEBUG (stuck_env H5ES)"
    by (simp add: stuck_env_def quiet_env_def)
  obtain s1 sw where r: "?r = (s1, sw)"
    by (cases ?r)
  show ?thesis
    using len nd
    by (simp add: H5_term_library_def process_start_def Let_def fputs_def free_open_streams_def r)
qed

section \<open>Frames\<close>

lemma debug_frame_refl: "debug_frame w w"
  by (simp add: debug_frame_def)

lemma debug_frame_trans: "debug_frame w w' \<Longrightarrow> debug_frame w' w'' \<Longrightarrow> debug_frame w w''"
  by (simp add: debug_frame_def)

lemma debug_frame_name: "debug_frame w (debug_name clear cur_stream pkg_name w)"
  by (simp add: debug_frame_def debug_name_def Let_def fputs_def split: prod.split)

lemma debug_frame_step:
  "debug_mask_step E cur_stream c cs w = Inl w' \<Longrightarrow> debug_frame w w'"
  "debug_mask_step E cur_stream c cs w = Inr (cur_stream', rest, w') \<Longrightarrow> debug_frame w w'"
  using debug_frame_name [of w "c = CHR ''-''" cur_stream]
  by (auto simp: debug_mask_step_def Let_def debug_frame_def split: if_splits prod.splits)

lemma debug_frame_loop: "debug_frame w (debug_mask_loop E cur_stream s w)"
proof (induction E cur_stream s w rule: debug_mask_loop.induct)
  case (1 E cur_stream w)
  show ?case by (simp add: debug_frame_refl)
next
  case (2 E cur_stream c cs w)
  show ?case
  proof (cases "debug_mask_step E cur_stream c cs w")
    case (Inl w')
    then show ?thesis using debug_frame_step(1) [OF Inl] by simp
  next
    case (Inr t)
    obtain cur_stream' rest w' where t: "t = (cur_stream', rest, w')"
      by (cases t) auto
    have "debug_frame w w'" using debug_frame_step(2) Inr t by blast
    moreover have "debug_frame w' (debug_mask_loop E cur_stream' rest w')"
      using "2.IH" Inr t by simp
    ultimately show ?thesis using Inr t by (simp add: debug_frame_trans)
  qed
qed

lemma debug_frame_mask: "debug_frame w (H5__debug_mask E s w)"
  by (simp add: H5__debug_mask_def debug_frame_refl debug_frame_loop split: option.split)


section \<open>The debug flags\<close>

text \<open>
  C8.  After \<^verbatim>\<open>H5__debug_mask("-all trace ttop")\<close>, whatever the settings were: the stream
  of every package is null, the trace stream is \<^verbatim>\<open>stderr\<close> and \<^verbatim>\<open>ttop\<close> is true; the
  package names are as before.
\<close>

theorem debug_mask_all_trace_ttop:
  "map stream (pkg (H5_debug_g (H5__debug_mask E (Some ''-all trace ttop'') w))) =
     replicate (length (pkg (H5_debug_g w))) None \<and>
   map name (pkg (H5_debug_g (H5__debug_mask E (Some ''-all trace ttop'') w))) =
     map name (pkg (H5_debug_g w)) \<and>
   trace (H5_debug_g (H5__debug_mask E (Some ''-all trace ttop'') w)) = Some Stderr \<and>
   ttop (H5_debug_g (H5__debug_mask E (Some ''-all trace ttop'') w)) = True"
proof -
  have "H5__debug_mask E (Some ''-all trace ttop'') w =
    w\<lparr>H5_debug_g := (H5_debug_g w)\<lparr>pkg := map (\<lambda>p. p\<lparr>stream := None\<rparr>) (pkg (H5_debug_g w)),
         trace := Some Stderr, ttop := True\<rparr>\<rparr>"
    by (simp add: H5__debug_mask_def debug_mask_step_def debug_name_def isalpha_def isdigit_def
        Let_def)
  then show ?thesis
    by (simp add: map_replicate_const o_def)
qed

section \<open>The shutdown as a whole\<close>

lemma run_atclose_fields:
  "cb_log (run_atclose E ns w) = cb_log w @ map (\<lambda>n. (func n, ctx n)) ns"
  "H5_dont_atexit_g (run_atclose E ns w) = H5_dont_atexit_g w"
  "H5_libinit_g (run_atclose E ns w) = H5_libinit_g w"
  "H5_libterm_g (run_atclose E ns w) = H5_libterm_g w"
  "stderr_out (run_atclose E ns w) = stderr_out w"
  "stderr_closed (run_atclose E ns w) = stderr_closed w"
  "sweep_log (run_atclose E ns w) = sweep_log w"
  by (induction ns arbitrary: w) simp_all

lemma run_atclose_ext:
  "ext (run_atclose E ns w) = fold (\<lambda>n. user_cb E (func n) (ctx n)) ns (ext w)"
  by (induction ns arbitrary: w) simp_all

text \<open>\<^verbatim>\<open>H5_term_library\<close> on an initialised library, given what the loop comes to.\<close>

lemma term_library_eq:
  assumes "H5_libinit_g w"
    and "term_loop E 0 [] (loop_start (ext (run_atclose E (H5_atclose_head w) w))) = (s', sw)"
  shows "H5_term_library E w =
    (let w2 = (run_atclose E (H5_atclose_head w) (w\<lparr>H5_libterm_g := True\<rparr>))\<lparr>H5_atclose_head := []\<rparr>;
         w3 = w2\<lparr>ext := xst s', sweep_log := sweep_log w @ sw\<rparr>;
         w4 = (if pending s' \<noteq> 0 \<and> auto_func E (ext w)
               then fputs (infinite_loop_report (loop s')) w3 else w3)
     in if pending s' \<noteq> 0 \<and> auto_func E (ext w) \<and> \<not> NDEBUG E then Aborted w4
        else Returned () ((free_open_streams w4)\<lparr>H5_libterm_g := False, H5_libinit_g := False\<rparr>))"
proof -
  let ?w1 = "w\<lparr>H5_libterm_g := True\<rparr>"
  let ?w2 = "if H5_atclose_head ?w1 \<noteq> []
             then (run_atclose E (H5_atclose_head ?w1) ?w1)\<lparr>H5_atclose_head := []\<rparr> else ?w1"
  have w2: "?w2 = (run_atclose E (H5_atclose_head w) ?w1)\<lparr>H5_atclose_head := []\<rparr>"
    by simp
  have e: "ext ?w2 = ext (run_atclose E (H5_atclose_head w) w)"
    unfolding w2 by (simp add: run_atclose_ext)
  have t: "term_loop E 0 [] (loop_start (ext ?w2)) = (s', sw)"
    unfolding e by (rule assms(2))
  have l: "sweep_log ?w2 = sweep_log w"
    unfolding w2 by (simp add: run_atclose_fields)
  have "H5_term_library E w =
    (let w3 = ?w2\<lparr>ext := xst s', sweep_log := sweep_log ?w2 @ sw\<rparr>;
         w4 = (if pending s' \<noteq> 0 \<and> auto_func E (ext w)
               then fputs (infinite_loop_report (loop s')) w3 else w3)
     in if pending s' \<noteq> 0 \<and> auto_func E (ext w) \<and> \<not> NDEBUG E then Aborted w4
        else Returned () ((free_open_streams w4)\<lparr>H5_libterm_g := False, H5_libinit_g := False\<rparr>))"
    using assms(1) t by (simp add: H5_term_library_def Let_def)
  then show ?thesis
    unfolding l unfolding w2 by (simp add: Let_def)
qed

lemma shutdown_pending_eq:
  "term_loop E 0 [] (loop_start (ext (run_atclose E (H5_atclose_head w) w))) = (s', sw) \<Longrightarrow>
     shutdown_pending E w = pending s'"
  by (simp add: shutdown_pending_def)

lemma term_library_aborted:
  "is_aborted (H5_term_library E w) \<longleftrightarrow>
     H5_libinit_g w \<and> \<not> NDEBUG E \<and> auto_func E (ext w) \<and> shutdown_pending E w \<noteq> 0"
proof (cases "H5_libinit_g w")
  case False
  then show ?thesis by (simp add: H5_term_library_def)
next
  case True
  obtain s' sw where
    t: "term_loop E 0 [] (loop_start (ext (run_atclose E (H5_atclose_head w) w))) = (s', sw)"
    by (cases "term_loop E 0 [] (loop_start (ext (run_atclose E (H5_atclose_head w) w)))")
  show ?thesis
    using True by (auto simp: term_library_eq [OF True t] shutdown_pending_eq [OF t] Let_def)
qed

lemma sweep_debug_stuck: "pending (sweep debug_stuck_env s) \<noteq> 0"
proof -
  have "pending (DOWN debug_stuck_env H5ES (s\<lparr>pending := 0\<rparr>)) = 1"
    by (simp add: pending_DOWN debug_stuck_env_def stuck_env_def quiet_env_def int_wrap_small)
  then show ?thesis
    by (simp add: sweep_def stmts_Cons stmts_Nil if_pending_0_skip)
qed

text \<open>
  C5.  When the library is not initialised, \<^verbatim>\<open>H5_term_library\<close> returns in the state in
  which it was called: flags, atclose list and debug settings are the same, and so are the
  state of the collaborators and the records of the callbacks and of the
  \<^verbatim>\<open>term_package\<close> calls, so none was called.  The same holds of \<^verbatim>\<open>H5close\<close>.
\<close>

theorem term_library_uninitialised_noop:
  assumes "\<not> H5_libinit_g w"
  shows "H5_term_library E w = Returned () w \<and> H5close E w = Returned SUCCEED w"
  using assms by (simp add: H5_term_library_def H5close_def)

theorem term_library_uninitialised_noop_witness:
  "H5_term_library quiet_env (process_start 0) = Returned () (process_start 0) \<and>
   H5close quiet_env (process_start 0) = Returned SUCCEED (process_start 0)"
  using term_library_uninitialised_noop [of "process_start 0" quiet_env]
  by (simp add: process_start_def)

text \<open>
  C9 (as amended).  \<^verbatim>\<open>H5close\<close> does not return for every state of the library: it
  aborts the process exactly when the library is initialised, the build is one without
  \<^verbatim>\<open>NDEBUG\<close>, the default error function is set (error output is wanted) and
  \<^verbatim>\<open>pending\<close> is not 0 when the shutdown loop ends.  In every other case, so in every
  build with \<^verbatim>\<open>NDEBUG\<close> and whenever the shutdown converges, it returns, and what it returns
  is \<^verbatim>\<open>SUCCEED\<close>, in the state in which \<^verbatim>\<open>H5_term_library\<close> ends.
\<close>

theorem H5close_succeeds_or_aborts:
  "(is_aborted (H5close E w) \<longleftrightarrow>
      H5_libinit_g w \<and> \<not> NDEBUG E \<and> auto_func E (ext w) \<and> shutdown_pending E w \<noteq> 0) \<and>
   (\<not> is_aborted (H5close E w) \<longrightarrow>
      H5close E w = Returned SUCCEED (final_world (H5_term_library E w)))"
proof -
  have "is_aborted (H5close E w) = is_aborted (H5_term_library E w)"
    by (cases "H5_term_library E w") (simp_all add: H5close_def)
  moreover have "\<not> is_aborted (H5close E w) \<longrightarrow>
      H5close E w = Returned SUCCEED (final_world (H5_term_library E w))"
    by (cases "H5_term_library E w") (simp_all add: H5close_def)
  ultimately show ?thesis
    using term_library_aborted [of E w] by simp
qed

lemma quiet_sweep:
  assumes "term_package E = (\<lambda>F x. (0, x))"
  shows "pending (sweep E s) = 0 \<and> xst (sweep E s) = xst s"
  by (simp add: sweep_def stmts_def if_pending_0_def DOWN_def assms int_wrap_small)

lemma quiet_term_loop:
  assumes "term_package E = (\<lambda>F x. (0, x))"
  shows "xst (fst (term_loop E 0 [] s)) = xst s" "pending (fst (term_loop E 0 [] s)) = 0"
  by (subst term_loop.simps, simp add: Let_def quiet_sweep [OF assms])+

lemma stuck_shutdown_pending:
  assumes "\<And>s. pending (sweep E s) \<noteq> 0"
  shows "shutdown_pending E w \<noteq> 0"
  unfolding shutdown_pending_def
  using term_loop_never_quiet [of E 0 "[]", OF assms] by simp

theorem H5close_succeeds_or_aborts_witness:
  "H5close (stuck_env H5ES) ((process_start 0)\<lparr>H5_libinit_g := True\<rparr>) =
     Returned SUCCEED
       (final_world (H5_term_library (stuck_env H5ES) ((process_start 0)\<lparr>H5_libinit_g := True\<rparr>))) \<and>
   NDEBUG (stuck_env H5ES) \<and>
   H5close (quiet_env\<lparr>NDEBUG := False\<rparr>) ((process_start 0)\<lparr>H5_libinit_g := True\<rparr>) =
     Returned SUCCEED
       (final_world (H5_term_library (quiet_env\<lparr>NDEBUG := False\<rparr>)
          ((process_start 0)\<lparr>H5_libinit_g := True\<rparr>))) \<and>
   \<not> NDEBUG (quiet_env\<lparr>NDEBUG := False\<rparr>) \<and>
   shutdown_pending (quiet_env\<lparr>NDEBUG := False\<rparr>) ((process_start 0)\<lparr>H5_libinit_g := True\<rparr>) = 0 \<and>
   is_aborted (H5close debug_stuck_env ((process_start 0)\<lparr>H5_libinit_g := True\<rparr>)) \<and>
   shutdown_pending debug_stuck_env ((process_start 0)\<lparr>H5_libinit_g := True\<rparr>) \<noteq> 0 \<and>
   H5close debug_stuck_env (process_start 0) = Returned SUCCEED (process_start 0)"
proof -
  let ?w = "(process_start (0::nat))\<lparr>H5_libinit_g := True\<rparr>"
  let ?Q = "quiet_env\<lparr>NDEBUG := False\<rparr>"
  have nd: "NDEBUG (stuck_env H5ES)" "\<not> NDEBUG debug_stuck_env" "\<not> NDEBUG ?Q"
    "auto_func debug_stuck_env (ext ?w)"
    by (simp_all add: debug_stuck_env_def stuck_env_def quiet_env_def)
  have p: "\<not> H5_libinit_g (process_start (0::nat))" "H5_libinit_g ?w"
    by (simp_all add: process_start_def)
  have q: "term_package ?Q = (\<lambda>F x. (0, x))"
    by (simp add: quiet_env_def)
  have z: "shutdown_pending ?Q ?w = 0"
    unfolding shutdown_pending_def by (rule quiet_term_loop(2) [OF q])
  have nz: "shutdown_pending debug_stuck_env ?w \<noteq> 0"
    using sweep_debug_stuck by (rule stuck_shutdown_pending)
  note a = H5close_succeeds_or_aborts [of "stuck_env H5ES" ?w]
  note b = H5close_succeeds_or_aborts [of ?Q ?w]
  note c = H5close_succeeds_or_aborts [of debug_stuck_env ?w]
  note d = H5close_succeeds_or_aborts [of debug_stuck_env "process_start 0"]
  have 1: "H5close (stuck_env H5ES) ?w =
     Returned SUCCEED (final_world (H5_term_library (stuck_env H5ES) ?w))"
    using a nd(1) by blast
  have 2: "H5close ?Q ?w = Returned SUCCEED (final_world (H5_term_library ?Q ?w))"
    using b z by blast
  have 3: "is_aborted (H5close debug_stuck_env ?w)"
    using c nz nd(2,4) p(2) by blast
  have "H5close debug_stuck_env (process_start 0) =
     Returned SUCCEED (final_world (H5_term_library debug_stuck_env (process_start 0)))"
    using d p(1) by blast
  moreover have "H5_term_library debug_stuck_env (process_start 0) = Returned () (process_start 0)"
    using p(1) by (simp add: H5_term_library_def)
  ultimately have 4: "H5close debug_stuck_env (process_start 0) = Returned SUCCEED (process_start 0)"
    by simp
  show ?thesis
    using 1 2 3 4 nd(1,3) z nz by (intro conjI)
qed

text \<open>
  C9 as it is written fails.  In a build without \<^verbatim>\<open>NDEBUG\<close> the library is initialised,
  error output is wanted, and the event-set package is stuck: \<^verbatim>\<open>H5close\<close> does not return
  \<^verbatim>\<open>SUCCEED\<close>, the process is aborted.
\<close>

theorem H5close_aborts_debug_build:
  "is_aborted (H5close debug_stuck_env ((process_start 0)\<lparr>H5_libinit_g := True\<rparr>)) \<and>
   \<not> NDEBUG debug_stuck_env \<and>
   auto_func debug_stuck_env (ext ((process_start 0)\<lparr>H5_libinit_g := True\<rparr>))"
proof -
  let ?E = "debug_stuck_env"
  let ?w = "(process_start (0::nat))\<lparr>H5_libinit_g := True\<rparr>"
  obtain s' sw where t: "term_loop ?E 0 [] (loop_start (0::nat)) = (s', sw)"
    by (cases "term_loop ?E 0 [] (loop_start (0::nat))")
  have t': "term_loop ?E 0 [] (loop_start (ext (run_atclose ?E (H5_atclose_head ?w) ?w))) = (s', sw)"
    using t by (simp add: process_start_def)
  have p: "pending s' \<noteq> 0"
    using term_loop_never_quiet [of ?E 0 "[]" "loop_start 0", OF sweep_debug_stuck] t by simp
  have q: "\<not> NDEBUG ?E" "auto_func ?E = (\<lambda>x. True)"
    by (simp_all add: debug_stuck_env_def stuck_env_def quiet_env_def)
  have i: "H5_libinit_g ?w" by simp
  have "H5_term_library ?E ?w =
      Aborted ((process_start 0)\<lparr>H5_libinit_g := True, H5_libterm_g := True, ext := xst s',
         sweep_log := sw, stderr_out := infinite_loop_report (loop s')\<rparr>)"
    unfolding term_library_eq [OF i t'] using p q
    by (simp add: Let_def fputs_def process_start_def)
  then show ?thesis
    using q by (simp add: H5close_def)
qed
section \<open>Initialisation\<close>

lemma mask_fields:
  "H5_libinit_g (H5__debug_mask E s w) = H5_libinit_g w"
  "H5_libterm_g (H5__debug_mask E s w) = H5_libterm_g w"
  "H5_dont_atexit_g (H5__debug_mask E s w) = H5_dont_atexit_g w"
  "H5_atclose_head (H5__debug_mask E s w) = H5_atclose_head w"
  "cb_log (H5__debug_mask E s w) = cb_log w"
  "sweep_log (H5__debug_mask E s w) = sweep_log w"
  using debug_frame_mask [of w E s] by (simp_all add: debug_frame_def)

lemma version_frame_refl: "version_frame w w"
  by (simp add: version_frame_def)

lemma version_frame_trans: "version_frame w w' \<Longrightarrow> version_frame w' w'' \<Longrightarrow> version_frame w w''"
  by (simp add: version_frame_def)

lemma version_frame_read: "version_frame w (read_disable_version_check E w)"
  by (simp add: version_frame_def read_disable_version_check_def split: option.split list.split)

lemma version_frame_version_switch:
  "version_frame w (final_world (version_mismatch_switch E majnum minnum relnum w))"
  by (simp add: version_frame_def version_mismatch_switch_def fputs_def Let_def)

lemma version_frame_release_switch:
  "version_frame w (final_world (release_mismatch_switch E majnum minnum relnum w))"
  by (simp add: version_frame_def release_mismatch_switch_def fputs_def Let_def)

lemma version_frame_release_loop:
  "version_frame w (final_world (release_exceptions_loop E es majnum minnum relnum w))"
proof (induction es arbitrary: w)
  case Nil
  show ?case by (simp add: version_frame_refl)
next
  case (Cons e es)
  show ?case
  proof (cases "e = relnum \<or> e = H5_VERS_RELEASE E")
    case False
    then show ?thesis using Cons.IH [of w] by simp
  next
    case True
    show ?thesis
    proof (cases "release_mismatch_switch E majnum minnum relnum w")
      case (Aborted w')
      then show ?thesis
        using True version_frame_release_switch [of w E majnum minnum relnum] by simp
    next
      case (Returned u w')
      then have "version_frame w w'"
        using version_frame_release_switch [of w E majnum minnum relnum] by simp
      then show ?thesis
        using True Returned Cons.IH [of w'] by (auto intro: version_frame_trans)
    qed
  qed
qed

lemma version_frame_check:
  "version_frame w (final_world (H5_check_version E majnum minnum relnum w))"
proof (cases "checked w")
  case True
  then show ?thesis by (simp add: H5_check_version_def version_frame_refl)
next
  case False
  let ?w0 = "read_disable_version_check E w"
  let ?v = "if H5_VERS_MAJOR E \<noteq> majnum \<or> H5_VERS_MINOR E \<noteq> minnum
            then version_mismatch_switch E majnum minnum relnum ?w0 else Returned () ?w0"
  have f0: "version_frame w ?w0" by (rule version_frame_read)
  have f1: "version_frame ?w0 (final_world ?v)"
    by (simp add: version_frame_refl version_frame_version_switch)
  show ?thesis
  proof (cases ?v)
    case (Aborted w1)
    then show ?thesis
      using False f0 f1 by (auto simp: H5_check_version_def Let_def intro: version_frame_trans)
  next
    case (Returned u w1)
    let ?r = "if H5_VERS_RELEASE E \<noteq> relnum
              then release_exceptions_loop E VERS_RELEASE_EXCEPTIONS majnum minnum relnum w1
              else Returned () w1"
    have w1: "version_frame w w1"
      using f0 f1 Returned by (auto intro: version_frame_trans)
    have f2: "version_frame w1 (final_world ?r)"
      by (simp add: version_frame_refl version_frame_release_loop)
    show ?thesis
    proof (cases ?r)
      case (Aborted w2)
      then have "version_frame w w2" using w1 f2 by (auto intro: version_frame_trans)
      then show ?thesis
        using False Returned Aborted by (simp add: H5_check_version_def Let_def)
    next
      case r: (Returned u2 w2)
      then have w2: "version_frame w w2" using w1 f2 by (auto intro: version_frame_trans)
      have "version_frame w2 (if disable_version_check w2 = 0
               then vers_info_check E (w2\<lparr>checked := True\<rparr>) else w2\<lparr>checked := True\<rparr>)"
        by (simp add: version_frame_def vers_info_check_def fputs_def Let_def)
      then show ?thesis
        using False Returned r w2
        by (auto simp: H5_check_version_def Let_def intro: version_frame_trans)
    qed
  qed
qed

lemma check_fields:
  "H5_libinit_g (final_world (H5_check_version E majnum minnum relnum w)) = H5_libinit_g w"
  "H5_libterm_g (final_world (H5_check_version E majnum minnum relnum w)) = H5_libterm_g w"
  "H5_dont_atexit_g (final_world (H5_check_version E majnum minnum relnum w)) = H5_dont_atexit_g w"
  "H5_atclose_head (final_world (H5_check_version E majnum minnum relnum w)) = H5_atclose_head w"
  "cb_log (final_world (H5_check_version E majnum minnum relnum w)) = cb_log w"
  "sweep_log (final_world (H5_check_version E majnum minnum relnum w)) = sweep_log w"
  using version_frame_check [of w E majnum minnum relnum] by (simp_all add: version_frame_def)

lemma init_library_noop:
  "H5_libinit_g w \<or> H5_libterm_g w \<Longrightarrow> H5_init_library E w = Returned SUCCEED w"
  by (simp add: H5_init_library_def)

lemma init_library_aborted:
  assumes "H5_init_library E w = Aborted w'"
  shows "H5_check_version E (H5_VERS_MAJOR E) (H5_VERS_MINOR E) (H5_VERS_RELEASE E) w = Aborted w'"
  using assms
  by (auto simp: H5_init_library_def Let_def split: if_splits outcome.splits prod.splits)

lemma init_library_returned:
  assumes "H5_init_library E w = Returned r w'" and "\<not> H5_libinit_g w" and "\<not> H5_libterm_g w"
  shows "H5_libinit_g w' \<and> init_frame w w' \<and> (r = SUCCEED \<longrightarrow> H5_dont_atexit_g w') \<and>
         (r = SUCCEED \<or> r = FAIL)"
proof -
  let ?c = "H5_check_version E (H5_VERS_MAJOR E) (H5_VERS_MINOR E) (H5_VERS_RELEASE E) w"
  obtain u w1 where c: "?c = Returned u w1"
    using assms by (cases ?c) (auto simp: H5_init_library_def)
  have w1: "H5_libterm_g w1 = H5_libterm_g w" "H5_atclose_head w1 = H5_atclose_head w"
    "cb_log w1 = cb_log w" "sweep_log w1 = sweep_log w" "H5_dont_atexit_g w1 = H5_dont_atexit_g w"
    using check_fields [of E "H5_VERS_MAJOR E" "H5_VERS_MINOR E" "H5_VERS_RELEASE E" w] c
    by simp_all
  let ?w2 = "w1\<lparr>H5_libinit_g := True\<rparr>"
  obtain mpi_ok w3 where m: "attach_mpi E ?w2 = (mpi_ok, w3)"
    by (cases "attach_mpi E ?w2")
  have w3: "H5_libinit_g w3" "H5_libterm_g w3 = H5_libterm_g w"
    "H5_atclose_head w3 = H5_atclose_head w" "cb_log w3 = cb_log w" "sweep_log w3 = sweep_log w"
    "H5_dont_atexit_g w3 = H5_dont_atexit_g w"
    using m w1 by (auto simp: attach_mpi_def Let_def split: if_splits prod.splits)
  let ?w4 = "install_atexit E (w3\<lparr>H5_debug_g := debug_g_named\<rparr>)"
  have w4: "H5_libinit_g ?w4" "H5_libterm_g ?w4 = H5_libterm_g w"
    "H5_atclose_head ?w4 = H5_atclose_head w" "cb_log ?w4 = cb_log w"
    "sweep_log ?w4 = sweep_log w" "H5_dont_atexit_g ?w4"
    using w3 by (simp_all add: install_atexit_def)
  obtain ok w5 where i: "init_interfaces E ?w4 = (ok, w5)"
    by (cases "init_interfaces E ?w4")
  have w5: "H5_libinit_g w5" "H5_libterm_g w5 = H5_libterm_g w"
    "H5_atclose_head w5 = H5_atclose_head w" "cb_log w5 = cb_log w" "sweep_log w5 = sweep_log w"
    "H5_dont_atexit_g w5"
    using i w4 by (auto simp: init_interfaces_def Let_def split: prod.splits)
  have r: "H5_init_library E w =
    (if \<not> mpi_ok then Returned FAIL w3
     else if \<not> ok then Returned FAIL w5
     else Returned SUCCEED
            (H5__debug_mask E (getenv E ''HDF5_DEBUG'') (H5__debug_mask E (Some ''-all'') w5)))"
    using assms(2,3) c m i by (simp add: H5_init_library_def Let_def)
  show ?thesis
    using assms(1) w3 w5 unfolding r
    by (auto simp: init_frame_def mask_fields SUCCEED_def FAIL_def split: if_splits)
qed

lemma init_library_frame: "init_frame w (final_world (H5_init_library E w))"
proof (cases "H5_libinit_g w \<or> H5_libterm_g w")
  case True
  then show ?thesis by (simp add: init_library_noop init_frame_def)
next
  case False
  show ?thesis
  proof (cases "H5_init_library E w")
    case (Aborted w')
    then show ?thesis
      using check_fields [of E "H5_VERS_MAJOR E" "H5_VERS_MINOR E" "H5_VERS_RELEASE E" w]
        init_library_aborted [OF Aborted]
      by (simp add: init_frame_def)
  next
    case (Returned r w')
    then show ?thesis using init_library_returned [OF Returned] False by simp
  qed
qed

lemma init_library_initialised:
  assumes "H5_init_library E w = Returned r w'"
  shows "H5_libinit_g w' \<or> H5_libterm_g w'"
proof (cases "H5_libinit_g w \<or> H5_libterm_g w")
  case True
  then show ?thesis using assms by (simp add: init_library_noop)
next
  case False
  then show ?thesis using init_library_returned [OF assms] by simp
qed

lemma init_times_noop:
  "H5_libinit_g w \<or> H5_libterm_g w \<Longrightarrow> init_times E n w = Returned (replicate n SUCCEED) w"
  by (induction n) (simp_all add: init_library_noop)

text \<open>
  C4.  \<^verbatim>\<open>H5_init_library\<close> on a library that is initialised or is shutting down changes
  nothing and returns \<^verbatim>\<open>SUCCEED\<close>.  One call or several calls in a row end in the same
  state, and abort the process in the same cases (the version check of the first call).
\<close>

theorem init_library_idempotent:
  "(H5_libinit_g w \<or> H5_libterm_g w \<longrightarrow> H5_init_library E w = Returned SUCCEED w) \<and>
   final_world (init_times E (Suc n) w) = final_world (H5_init_library E w) \<and>
   is_aborted (init_times E (Suc n) w) = is_aborted (H5_init_library E w)"
proof (cases "H5_init_library E w")
  case (Aborted w')
  then show ?thesis by (auto simp: init_library_noop)
next
  case (Returned r w')
  have "init_times E n w' = Returned (replicate n SUCCEED) w'"
    using init_library_initialised [OF Returned] by (rule init_times_noop)
  then show ?thesis using Returned by (auto simp: init_library_noop)
qed

theorem init_library_idempotent_witness:
  "H5_init_library quiet_env ((process_start 0)\<lparr>H5_libterm_g := True\<rparr>) =
     Returned SUCCEED ((process_start 0)\<lparr>H5_libterm_g := True\<rparr>) \<and>
   final_world (init_times quiet_env (Suc 2) (process_start 0)) =
     final_world (H5_init_library quiet_env (process_start 0)) \<and>
   is_aborted (init_times quiet_env (Suc 2) (process_start 0)) =
     is_aborted (H5_init_library quiet_env (process_start 0))"
proof -
  have "H5_libterm_g ((process_start (0::nat))\<lparr>H5_libterm_g := True\<rparr>)"
    by simp
  then show ?thesis
    using init_library_idempotent [of "(process_start 0)\<lparr>H5_libterm_g := True\<rparr>" quiet_env 0]
      init_library_idempotent [of "process_start 0" quiet_env 2]
    by blast
qed

text \<open>The first initialisation of the process in the quiet environment.\<close>

lemma init_library_quiet:
  "H5_init_library quiet_env (process_start 0) =
    Returned SUCCEED
      ((process_start 0)\<lparr>H5_libinit_g := True, H5_dont_atexit_g := True, checked := True,
         atexit_fns := [Atexit_H5_term_library], H5_debug_g := debug_g_named\<rparr>)"
proof -
  have v: "lib_str quiet_env = H5_VERS_INFO quiet_env"
    by (simp add: lib_str_def quiet_env_def)
  have q: "H5_VERS_MAJOR quiet_env = 1" "H5_VERS_MINOR quiet_env = 14"
    "H5_VERS_RELEASE quiet_env = 6" "getenv quiet_env = (\<lambda>v. None)"
    "\<not> H5_HAVE_PARALLEL quiet_env" "\<not> H5_HAVE_THREADSAFE_API quiet_env"
    "init_call quiet_env = (\<lambda>f x. (0, x))"
    by (simp_all add: quiet_env_def)
  have c: "H5_check_version quiet_env (H5_VERS_MAJOR quiet_env) (H5_VERS_MINOR quiet_env)
        (H5_VERS_RELEASE quiet_env) (process_start 0) =
      Returned SUCCEED ((process_start 0)\<lparr>checked := True\<rparr>)"
    using v by (simp add: H5_check_version_def read_disable_version_check_def q(4)
        vers_info_check_def process_start_def Let_def)
  have m: "H5__debug_mask quiet_env (Some ''-all'') w =
      w\<lparr>H5_debug_g := (H5_debug_g w)\<lparr>pkg := map (\<lambda>p. p\<lparr>stream := None\<rparr>) (pkg (H5_debug_g w))\<rparr>\<rparr>"
    for w :: "nat world"
    by (simp add: H5__debug_mask_def debug_mask_step_def debug_name_def isalpha_def Let_def)
  have ps: "\<not> H5_libinit_g (process_start (0::nat))" "\<not> H5_libterm_g (process_start (0::nat))"
    by (simp_all add: process_start_def)
  have n: "H5__debug_mask quiet_env None w = w" for w :: "nat world"
    by (simp add: H5__debug_mask_def)
  have step: "H5_init_library quiet_env (process_start 0) =
    Returned SUCCEED
      (H5__debug_mask quiet_env None
        (H5__debug_mask quiet_env (Some ''-all'')
          (snd (init_interfaces quiet_env
            (install_atexit quiet_env
              ((process_start 0)\<lparr>checked := True, H5_libinit_g := True,
                 H5_debug_g := debug_g_named\<rparr>))))))"
    by (simp add: H5_init_library_def ps c q(4,5) attach_mpi_def init_interfaces_def q(7) Let_def)
  have e: "H5__debug_mask quiet_env None
        (H5__debug_mask quiet_env (Some ''-all'')
          (snd (init_interfaces quiet_env
            (install_atexit quiet_env
              ((process_start 0)\<lparr>checked := True, H5_libinit_g := True,
                 H5_debug_g := debug_g_named\<rparr>))))) =
      (process_start 0)\<lparr>H5_libinit_g := True, H5_dont_atexit_g := True, checked := True,
         atexit_fns := [Atexit_H5_term_library], H5_debug_g := debug_g_named\<rparr>"
    by (simp add: m n install_atexit_def init_interfaces_def q(6,7) process_start_def
        debug_g_named_def Let_def)
  show ?thesis
    by (simp only: step e)
qed

section \<open>The atclose callbacks and the opt-out flag\<close>

lemma fclose_fields:
  "H5_libinit_g (fclose f w) = H5_libinit_g w"
  "H5_libterm_g (fclose f w) = H5_libterm_g w"
  "H5_dont_atexit_g (fclose f w) = H5_dont_atexit_g w"
  "H5_debug_g (fclose f w) = H5_debug_g w"
  "H5_atclose_head (fclose f w) = H5_atclose_head w"
  "stderr_out (fclose f w) = stderr_out w"
  "ext (fclose f w) = ext w"
  "cb_log (fclose f w) = cb_log w"
  "sweep_log (fclose f w) = sweep_log w"
  by (cases f; simp)+

lemma fold_fclose_fields:
  "H5_libinit_g (fold fclose fs w) = H5_libinit_g w"
  "H5_libterm_g (fold fclose fs w) = H5_libterm_g w"
  "H5_dont_atexit_g (fold fclose fs w) = H5_dont_atexit_g w"
  "H5_debug_g (fold fclose fs w) = H5_debug_g w"
  "H5_atclose_head (fold fclose fs w) = H5_atclose_head w"
  "stderr_out (fold fclose fs w) = stderr_out w"
  "ext (fold fclose fs w) = ext w"
  "cb_log (fold fclose fs w) = cb_log w"
  "sweep_log (fold fclose fs w) = sweep_log w"
  by (induction fs arbitrary: w; simp add: fclose_fields)+

lemma free_open_streams_fields:
  "H5_libinit_g (free_open_streams w) = H5_libinit_g w"
  "H5_libterm_g (free_open_streams w) = H5_libterm_g w"
  "H5_dont_atexit_g (free_open_streams w) = H5_dont_atexit_g w"
  "H5_atclose_head (free_open_streams w) = H5_atclose_head w"
  "stderr_out (free_open_streams w) = stderr_out w"
  "ext (free_open_streams w) = ext w"
  "cb_log (free_open_streams w) = cb_log w"
  "sweep_log (free_open_streams w) = sweep_log w"
  by (simp_all add: free_open_streams_def fold_fclose_fields)

lemma fputs_fields:
  "H5_libinit_g (fputs str w) = H5_libinit_g w"
  "H5_libterm_g (fputs str w) = H5_libterm_g w"
  "H5_dont_atexit_g (fputs str w) = H5_dont_atexit_g w"
  "H5_debug_g (fputs str w) = H5_debug_g w"
  "H5_atclose_head (fputs str w) = H5_atclose_head w"
  "stderr_closed (fputs str w) = stderr_closed w"
  "ext (fputs str w) = ext w"
  "cb_log (fputs str w) = cb_log w"
  "sweep_log (fputs str w) = sweep_log w"
  by (simp_all add: fputs_def)

lemma term_library_callbacks:
  assumes "H5_libinit_g w"
  shows "cb_log (final_world (H5_term_library E w)) =
           cb_log w @ map (\<lambda>n. (func n, ctx n)) (H5_atclose_head w) \<and>
         H5_atclose_head (final_world (H5_term_library E w)) = []"
  using assms
  by (simp add: H5_term_library_def Let_def run_atclose_fields fputs_fields
      free_open_streams_fields split: prod.split)

lemma term_library_dont_atexit:
  "H5_dont_atexit_g (final_world (H5_term_library E w)) = H5_dont_atexit_g w"
  by (simp add: H5_term_library_def Let_def run_atclose_fields fputs_fields
      free_open_streams_fields split: prod.split)

lemma term_library_not_terminating:
  "H5_term_library E w = Returned u w' \<Longrightarrow> \<not> H5_libterm_g w \<Longrightarrow> \<not> H5_libterm_g w'"
  by (auto simp: H5_term_library_def Let_def split: prod.splits if_splits)

lemma init_package_frame: "init_frame w (final_world (H5__init_package E w))"
proof (cases "\<not> H5_libinit_g w \<and> \<not> H5_libterm_g w")
  case False
  then show ?thesis by (auto simp: H5__init_package_def init_frame_def)
next
  case True
  then show ?thesis
    using init_library_frame [of w E]
    by (cases "H5_init_library E w") (auto simp: H5__init_package_def)
qed

lemma init_package_initialised:
  assumes "H5__init_package E w = Returned r w'" and "0 \<le> r"
  shows "H5_libinit_g w' \<or> H5_libterm_g w'"
proof (cases "\<not> H5_libinit_g w \<and> \<not> H5_libterm_g w")
  case False
  then show ?thesis using assms by (auto simp: H5__init_package_def)
next
  case True
  then show ?thesis
    using assms init_library_initialised [of E w]
    by (cases "H5_init_library E w") (auto simp: H5__init_package_def split: if_splits)
qed

lemma init_package_result:
  "H5__init_package E w = Returned r w' \<Longrightarrow> r = SUCCEED \<or> r = FAIL"
  by (auto simp: H5__init_package_def split: if_splits outcome.splits)

lemma atclose_dont_atexit:
  "H5_dont_atexit_g w \<Longrightarrow> H5_dont_atexit_g (final_world (H5atclose E fn cx w))"
  using init_package_frame [of w E]
  by (cases "H5__init_package E w")
    (auto simp: H5atclose_def FUNC_ENTER_API_def init_frame_def Let_def split: prod.splits)

lemma call_dont_atexit:
  assumes "H5_dont_atexit_g w"
  shows "H5_dont_atexit_g (final_world (do_call E c w))"
proof (cases c)
  case Call_H5open
  then show ?thesis
    using assms init_package_frame [of w E]
    by (simp add: H5open_def FUNC_ENTER_API_def init_frame_def)
next
  case Call_H5close
  have "final_world (H5close E w) = final_world (H5_term_library E w)"
    by (cases "H5_term_library E w") (simp_all add: H5close_def)
  then show ?thesis using assms Call_H5close by (simp add: term_library_dont_atexit)
next
  case Call_H5dont_atexit
  then show ?thesis using assms by (simp add: H5dont_atexit_def)
next
  case (Call_H5atclose fn cx)
  then show ?thesis using assms by (simp add: atclose_dont_atexit)
next
  case (Call_H5check_version majnum minnum relnum)
  have "final_world (H5check_version E majnum minnum relnum w) =
        final_world (H5_check_version E majnum minnum relnum w)"
    by (cases "H5_check_version E majnum minnum relnum w") (simp_all add: H5check_version_def)
  then show ?thesis using assms Call_H5check_version by (simp add: check_fields)
qed

lemma calls_dont_atexit:
  "H5_dont_atexit_g w \<Longrightarrow> H5_dont_atexit_g (final_world (api_calls E cs w))"
proof (induction cs arbitrary: w)
  case Nil
  then show ?case by simp
next
  case (Cons c cs)
  show ?case
  proof (cases "do_call E c w")
    case (Aborted w')
    then show ?thesis using call_dont_atexit [OF Cons.prems, of E c] by simp
  next
    case (Returned r w')
    then have "H5_dont_atexit_g w'" using call_dont_atexit [OF Cons.prems, of E c] by simp
    then have "H5_dont_atexit_g (final_world (api_calls E cs w'))" by (rule Cons.IH)
    then show ?thesis using Returned by (cases "api_calls E cs w'") simp_all
  qed
qed

text \<open>
  C10.  An initialisation that is carried out (the library was neither initialised nor
  shutting down) and succeeds leaves \<^verbatim>\<open>H5_dont_atexit_g\<close> set, whether or not
  \<^verbatim>\<open>H5dont_atexit\<close> was called before.  No entry point clears the flag, so after any
  further calls \<^verbatim>\<open>H5dont_atexit\<close> returns \<^verbatim>\<open>FAIL\<close> and changes nothing.
\<close>

theorem dont_atexit_fails_after_init:
  assumes "\<not> H5_libinit_g w" and "\<not> H5_libterm_g w"
    and "H5_init_library E w = Returned SUCCEED w1"
    and "api_calls E cs w1 = Returned rs w2"
  shows "H5_dont_atexit_g w1 \<and> H5dont_atexit w2 = Returned FAIL w2"
proof -
  have 1: "H5_dont_atexit_g w1"
    using init_library_returned [OF assms(3,1,2)] by simp
  then have "H5_dont_atexit_g (final_world (api_calls E cs w1))"
    by (rule calls_dont_atexit)
  then have "H5_dont_atexit_g w2" using assms(4) by simp
  then show ?thesis using 1 by (simp add: H5dont_atexit_def)
qed

lemma H5close_release_build:
  assumes "NDEBUG E"
  shows "H5close E w = Returned SUCCEED (final_world (H5close E w))"
  using assms
  by (auto simp: H5close_def H5_term_library_def Let_def split: outcome.splits if_splits prod.splits)

theorem dont_atexit_fails_after_init_witness:
  "H5dont_atexit (final_world (api_calls quiet_env [Call_H5dont_atexit, Call_H5close]
      (final_world (H5_init_library quiet_env (process_start 0))))) =
   Returned FAIL (final_world (api_calls quiet_env [Call_H5dont_atexit, Call_H5close]
      (final_world (H5_init_library quiet_env (process_start 0)))))"
proof -
  let ?w1 = "(process_start (0::nat))\<lparr>H5_libinit_g := True, H5_dont_atexit_g := True,
         checked := True, atexit_fns := [Atexit_H5_term_library], H5_debug_g := debug_g_named\<rparr>"
  have nd: "NDEBUG quiet_env" by (simp add: quiet_env_def)
  have d: "H5dont_atexit ?w1 = Returned FAIL ?w1" by (simp add: H5dont_atexit_def)
  obtain w2 where cl: "H5close quiet_env ?w1 = Returned SUCCEED w2"
    using H5close_release_build [OF nd, of ?w1] by blast
  have c: "api_calls quiet_env [Call_H5dont_atexit, Call_H5close] ?w1 =
      Returned [FAIL, SUCCEED] w2"
    using cl d by simp
  have p: "\<not> H5_libinit_g (process_start (0::nat))" "\<not> H5_libterm_g (process_start (0::nat))"
    by (simp_all add: process_start_def)
  show ?thesis
    using dont_atexit_fails_after_init [OF p init_library_quiet c] c
    by (simp add: init_library_quiet)
qed

lemma atclose_registered:
  assumes "H5atclose E fn cx w = Returned SUCCEED w'" and "\<not> H5_libterm_g w"
  shows "H5_atclose_head w' = \<lparr>func = fn, ctx = cx\<rparr> # H5_atclose_head w \<and> cb_log w' = cb_log w \<and>
         \<not> H5_libterm_g w' \<and> H5_libinit_g w'"
proof -
  obtain r w0 where e: "H5__init_package E w = Returned r w0"
    using assms(1) by (cases "H5__init_package E w") (auto simp: H5atclose_def FUNC_ENTER_API_def)
  have r: "0 \<le> r"
    using assms(1) e
    by (auto simp: H5atclose_def FUNC_ENTER_API_def SUCCEED_def FAIL_def Let_def
        split: if_splits prod.splits)
  have f: "init_frame w w0" using init_package_frame [of w E] e by simp
  have i: "H5_libinit_g w0" using init_package_initialised [OF e r] f assms(2)
    by (simp add: init_frame_def)
  show ?thesis
    using assms e f i
    by (auto simp: H5atclose_def FUNC_ENTER_API_def init_frame_def SUCCEED_def FAIL_def Let_def
        split: if_splits prod.splits)
qed

lemma register_all_registered:
  assumes "register_all E cbs w = Some w1" and "\<not> H5_libterm_g w"
  shows "H5_atclose_head w1 = map (\<lambda>(fn, cx). \<lparr>func = fn, ctx = cx\<rparr>) (rev cbs) @ H5_atclose_head w \<and>
         cb_log w1 = cb_log w \<and> \<not> H5_libterm_g w1 \<and> (cbs \<noteq> [] \<longrightarrow> H5_libinit_g w1)"
  using assms
proof (induction cbs arbitrary: w)
  case Nil
  then show ?case by simp
next
  case (Cons cb cbs)
  obtain fn cx where cb: "cb = (fn, cx)" by (cases cb)
  obtain w' where a: "H5atclose E fn cx w = Returned SUCCEED w'"
    and rest: "register_all E cbs w' = Some w1"
    using Cons.prems(1) cb by (auto split: outcome.splits if_splits)
  note h = atclose_registered [OF a Cons.prems(2)]
  have ih: "H5_atclose_head w1 =
      map (\<lambda>(fn, cx). \<lparr>func = fn, ctx = cx\<rparr>) (rev cbs) @ H5_atclose_head w' \<and>
      cb_log w1 = cb_log w' \<and> \<not> H5_libterm_g w1 \<and> (cbs \<noteq> [] \<longrightarrow> H5_libinit_g w1)"
    using Cons.IH [OF rest] h by simp
  have init: "H5_libinit_g w1"
  proof (cases cbs)
    case Nil
    then show ?thesis using rest h by simp
  next
    case (Cons c cs)
    then show ?thesis using ih by simp
  qed
  show ?case using ih h cb init by simp
qed

lemma fold_nodes:
  "fold (\<lambda>n. user_cb E (func n) (ctx n)) (map (\<lambda>(fn, cx). \<lparr>func = fn, ctx = cx\<rparr>) cbs) x =
     fold (\<lambda>(fn, cx). user_cb E fn cx) cbs x"
  by (induction cbs arbitrary: x) (simp_all add: split_def)

lemma term_library_ext:
  assumes "H5_libinit_g w"
  shows "ext (final_world (H5_term_library E w)) =
     xst (fst (term_loop E 0 [] (loop_start
        (fold (\<lambda>n. user_cb E (func n) (ctx n)) (H5_atclose_head w) (ext w)))))"
proof -
  obtain s' sw where
    t: "term_loop E 0 [] (loop_start (ext (run_atclose E (H5_atclose_head w) w))) = (s', sw)"
    by (cases "term_loop E 0 [] (loop_start (ext (run_atclose E (H5_atclose_head w) w)))")
  have "ext (final_world (H5_term_library E w)) = xst s'"
    unfolding term_library_eq [OF assms t]
    by (simp add: Let_def fputs_fields free_open_streams_fields)
  then show ?thesis
    using t by (simp add: run_atclose_ext)
qed

text \<open>
  C3.  The library is not shutting down and its atclose list is empty.  The callbacks
  \<open>cbs\<close> are registered one after the other with \<^verbatim>\<open>H5atclose\<close>, each call returning
  \<^verbatim>\<open>SUCCEED\<close>; registering calls none of them.  \<^verbatim>\<open>H5_term_library\<close> then calls exactly the
  registered callbacks, each once with its context, the last registered first, and leaves
  the list empty: the record of the calls is the reversed list of the registrations, and
  the shutdown loop starts in the state of the collaborators that the callbacks, applied in
  that order to the state after the registrations, have produced.
\<close>

theorem atclose_callbacks_lifo:
  assumes "\<not> H5_libterm_g w" and "H5_atclose_head w = []" and "register_all E cbs w = Some w1"
  shows "cb_log w1 = cb_log w \<and>
         cb_log (final_world (H5_term_library E w1)) = cb_log w1 @ rev cbs \<and>
         H5_atclose_head (final_world (H5_term_library E w1)) = [] \<and>
         (cbs \<noteq> [] \<longrightarrow> H5_libinit_g w1) \<and>
         (H5_libinit_g w1 \<longrightarrow>
            ext (final_world (H5_term_library E w1)) =
              xst (fst (term_loop E 0 [] (loop_start
                     (fold (\<lambda>(fn, cx). user_cb E fn cx) (rev cbs) (ext w1))))))"
proof -
  note r = register_all_registered [OF assms(3,1)]
  have nodes: "H5_atclose_head w1 = map (\<lambda>(fn, cx). \<lparr>func = fn, ctx = cx\<rparr>) (rev cbs)"
    using r assms(2) by simp
  have head: "map (\<lambda>n. (func n, ctx n)) (H5_atclose_head w1) = rev cbs"
    unfolding nodes by (simp add: o_def split_def)
  have e: "ext (final_world (H5_term_library E w1)) =
              xst (fst (term_loop E 0 [] (loop_start
                     (fold (\<lambda>(fn, cx). user_cb E fn cx) (rev cbs) (ext w1)))))"
    if "H5_libinit_g w1"
    using term_library_ext [OF that, of E] unfolding nodes fold_nodes .
  have i: "cbs \<noteq> [] \<longrightarrow> H5_libinit_g w1" using r by blast
  have l: "cb_log w1 = cb_log w" using r by blast
  have c: "cb_log (final_world (H5_term_library E w1)) = cb_log w1 @ rev cbs \<and>
         H5_atclose_head (final_world (H5_term_library E w1)) = []"
  proof (cases "H5_libinit_g w1")
    case True
    then show ?thesis using term_library_callbacks [OF True, of E] head by simp
  next
    case False
    then have "cbs = []" using r by blast
    then show ?thesis using False r assms(2) by (simp add: H5_term_library_def)
  qed
  show ?thesis
    using l c i e by blast
qed

theorem atclose_callbacks_lifo_witness:
  "register_all tracing_env [(4, 10), (5, 20), (6, 30)] ((process_start 0)\<lparr>H5_libinit_g := True\<rparr>) =
     Some ((process_start 0)\<lparr>H5_libinit_g := True,
         H5_atclose_head := [\<lparr>func = 6, ctx = 30\<rparr>, \<lparr>func = 5, ctx = 20\<rparr>, \<lparr>func = 4, ctx = 10\<rparr>]\<rparr>) \<and>
   cb_log (final_world (H5_term_library tracing_env
     ((process_start 0)\<lparr>H5_libinit_g := True,
         H5_atclose_head := [\<lparr>func = 6, ctx = 30\<rparr>, \<lparr>func = 5, ctx = 20\<rparr>, \<lparr>func = 4, ctx = 10\<rparr>]\<rparr>))) =
     [(6, 30), (5, 20), (4, 10)] \<and>
   H5_atclose_head (final_world (H5_term_library tracing_env
     ((process_start 0)\<lparr>H5_libinit_g := True,
         H5_atclose_head := [\<lparr>func = 6, ctx = 30\<rparr>, \<lparr>func = 5, ctx = 20\<rparr>, \<lparr>func = 4, ctx = 10\<rparr>]\<rparr>))) = [] \<and>
   ext (final_world (H5_term_library tracing_env
     ((process_start 0)\<lparr>H5_libinit_g := True,
         H5_atclose_head := [\<lparr>func = 6, ctx = 30\<rparr>, \<lparr>func = 5, ctx = 20\<rparr>, \<lparr>func = 4, ctx = 10\<rparr>]\<rparr>))) = 654"
proof -
  let ?w0 = "(process_start (0::nat))\<lparr>H5_libinit_g := True\<rparr>"
  let ?w1 = "(process_start (0::nat))\<lparr>H5_libinit_g := True,
         H5_atclose_head := [\<lparr>func = 6, ctx = 30\<rparr>, \<lparr>func = 5, ctx = 20\<rparr>, \<lparr>func = 4, ctx = 10\<rparr>]\<rparr>"
  have q: "H5FL_MALLOC tracing_env = (\<lambda>x. (True, x))"
    "term_package tracing_env = (\<lambda>F x. (0, x))"
    "user_cb tracing_env = (\<lambda>fn cx x. 10 * x + fn)"
    by (simp_all add: tracing_env_def quiet_env_def)
  have p: "\<not> H5_libterm_g ?w0" "H5_atclose_head ?w0 = []" "cb_log ?w0 = []"
    by (simp_all add: process_start_def)
  have 2: "H5atclose tracing_env fn cx (?w0\<lparr>H5_atclose_head := ns\<rparr>) =
      Returned SUCCEED (?w0\<lparr>H5_atclose_head := \<lparr>func = fn, ctx = cx\<rparr> # ns\<rparr>)" if "fn \<noteq> 0" for fn cx ns
    using that
    by (simp add: H5atclose_def FUNC_ENTER_API_def H5__init_package_def q SUCCEED_def)
  have 1: "H5atclose tracing_env 4 10 ?w0 = Returned SUCCEED (?w0\<lparr>H5_atclose_head := [\<lparr>func = 4, ctx = 10\<rparr>]\<rparr>)"
    using 2 [of 4 10 "[]"] by (simp add: process_start_def)
  have reg: "register_all tracing_env [(4, 10), (5, 20), (6, 30)] ?w0 = Some ?w1"
    by (simp add: 1 2)
  have i: "H5_libinit_g ?w1" "ext ?w1 = 0" "cb_log ?w1 = []"
    by (simp_all add: process_start_def)
  have x: "xst (fst (term_loop tracing_env 0 [] (loop_start
        (fold (\<lambda>(fn, cx). user_cb tracing_env fn cx) (rev [(4, 10), (5, 20), (6, 30)]) (ext ?w1))))) = 654"
    unfolding quiet_term_loop [OF q(2)] by (simp add: q(3) i(2) loop_start_def)
  show ?thesis
    using atclose_callbacks_lifo [OF p(1,2) reg] reg i x
    by simp
qed
section \<open>The version check\<close>

lemma fputs_fputs: "fputs b (fputs a w) = fputs (a @ b) w"
  by (simp add: fputs_def)

lemma read_unset:
  "getenv E ''HDF5_DISABLE_VERSION_CHECK'' = None \<Longrightarrow> read_disable_version_check E w = w"
  by (simp add: read_disable_version_check_def)

lemma read_no_digit:
  "getenv E ''HDF5_DISABLE_VERSION_CHECK'' = Some v \<Longrightarrow> v = [] \<or> \<not> isdigit (hd v) \<Longrightarrow>
     read_disable_version_check E w = w"
  by (cases v) (simp_all add: read_disable_version_check_def)

lemma read_digit:
  "getenv E ''HDF5_DISABLE_VERSION_CHECK'' = Some (c # cs) \<Longrightarrow> isdigit c \<Longrightarrow>
     read_disable_version_check E w =
       w\<lparr>disable_version_check := long_to_unsigned (fst (strtol c cs))\<rparr>"
  by (simp add: read_disable_version_check_def)

lemma strtol_one_digit:
  "isdigit CHR ''0''" "long_to_unsigned (fst (strtol CHR ''0'' [])) = 0"
  "isdigit CHR ''1''" "long_to_unsigned (fst (strtol CHR ''1'' [])) = 1"
  "isdigit CHR ''2''" "long_to_unsigned (fst (strtol CHR ''2'' [])) = 2"
  by (simp_all add: isdigit_def strtol_def strtol_digits_def digit_val_def long_to_unsigned_def
      LONG_MAX_def)

lemma same_level: "disable_version_check w = l \<Longrightarrow> w\<lparr>disable_version_check := l\<rparr> = w"
  by auto

text \<open>The check when the major or the minor number differs, by the level that is in force.\<close>

lemma mismatch_level_0:
  assumes "\<not> checked w" and "disable_version_check w = 0"
    and "H5_VERS_MAJOR E \<noteq> majnum \<or> H5_VERS_MINOR E \<noteq> minnum"
    and "read_disable_version_check E w = w"
  shows "H5_check_version E majnum minnum relnum w =
     Aborted (fputs (VERSION_MISMATCH_WARNING @ disable_hint @
                headers_line E majnum minnum relnum @ H5build_settings E @ ''Bye...\<newline>'') w)"
  using assms
  by (simp add: H5_check_version_def version_mismatch_switch_def fputs_fputs Let_def)

lemma mismatch_level_1:
  assumes "\<not> checked w" and "H5_VERS_MAJOR E \<noteq> majnum \<or> H5_VERS_MINOR E \<noteq> minnum"
    and "read_disable_version_check E w = w\<lparr>disable_version_check := 1\<rparr>"
  shows "H5_check_version E majnum minnum relnum w =
     Returned SUCCEED
       (fputs (VERSION_MISMATCH_WARNING @ continue_notice 1 @
               headers_line E majnum minnum relnum @ H5build_settings E @
               (if H5_VERS_RELEASE E \<noteq> relnum \<and> (relnum = 0 \<or> H5_VERS_RELEASE E = 0)
                then RELEASE_MISMATCH_WARNING @ continue_notice 1 @
                     headers_line E majnum minnum relnum
                else []))
          (w\<lparr>disable_version_check := 1, checked := True\<rparr>))"
  using assms
  by (auto simp: H5_check_version_def version_mismatch_switch_def release_mismatch_switch_def
      VERS_RELEASE_EXCEPTIONS_def fputs_def Let_def)

lemma release_loop_silent:
  "2 \<le> disable_version_check w \<Longrightarrow>
     release_exceptions_loop E es majnum minnum relnum w = Returned () w"
  by (induction es) (simp_all add: release_mismatch_switch_def)

lemma mismatch_level_2:
  assumes "\<not> checked w" and "H5_VERS_MAJOR E \<noteq> majnum \<or> H5_VERS_MINOR E \<noteq> minnum"
    and "read_disable_version_check E w = w\<lparr>disable_version_check := l\<rparr>" and "2 \<le> l"
  shows "H5_check_version E majnum minnum relnum w =
     Returned SUCCEED (w\<lparr>disable_version_check := l, checked := True\<rparr>)"
proof -
  have "2 \<le> disable_version_check (w\<lparr>disable_version_check := l\<rparr>)"
    using assms(4) by simp
  note s = release_loop_silent [OF this]
  show ?thesis
    using assms by (simp add: H5_check_version_def version_mismatch_switch_def s Let_def)
qed

text \<open>
  C7.  The version has not been checked yet in this process (\<^verbatim>\<open>checked\<close> is false and
  \<^verbatim>\<open>disable_version_check\<close> has its initial value 0), and the major or the minor number
  differs.  The level is read from the environment variable
  \<^verbatim>\<open>HDF5_DISABLE_VERSION_CHECK\<close>.

  \<^item> Level 0, which is the variable not set, set to \<^verbatim>\<open>0\<close>, or set to a string that does not
    start with a digit: the warning, the hint how to disable it, the version numbers, the
    build settings and \<^verbatim>\<open>Bye...\<close> are written to \<^verbatim>\<open>stderr\<close> and the process is aborted.
  \<^item> Level 1, the variable set to \<^verbatim>\<open>1\<close>: the same warning, the notice that the application
    continues, the same version numbers and the build settings are written, then the release
    warning if the release numbers differ and one of them is 0; the call returns
    \<^verbatim>\<open>SUCCEED\<close>.
  \<^item> Level 2 or more, the variable set to \<^verbatim>\<open>2\<close> or to any string that starts with a digit
    and that \<^verbatim>\<open>strtol\<close> reads as a number that is at least 2 as an \<^verbatim>\<open>unsigned\<close>: the call
    returns \<^verbatim>\<open>SUCCEED\<close> and nothing is written; only the two static variables change.
\<close>

theorem version_mismatch_by_level:
  assumes "\<not> checked w" and "disable_version_check w = 0"
    and "H5_VERS_MAJOR E \<noteq> majnum \<or> H5_VERS_MINOR E \<noteq> minnum"
  shows
    "(getenv E ''HDF5_DISABLE_VERSION_CHECK'' = None \<or>
      getenv E ''HDF5_DISABLE_VERSION_CHECK'' = Some ''0'' \<or>
      getenv E ''HDF5_DISABLE_VERSION_CHECK'' = Some [] \<or>
      (\<exists>c cs. getenv E ''HDF5_DISABLE_VERSION_CHECK'' = Some (c # cs) \<and> \<not> isdigit c) \<longrightarrow>
        H5_check_version E majnum minnum relnum w =
          Aborted (fputs (VERSION_MISMATCH_WARNING @ disable_hint @
                     headers_line E majnum minnum relnum @ H5build_settings E @ ''Bye...\<newline>'') w)) \<and>
     (getenv E ''HDF5_DISABLE_VERSION_CHECK'' = Some ''1'' \<longrightarrow>
        H5_check_version E majnum minnum relnum w =
          Returned SUCCEED
            (fputs (VERSION_MISMATCH_WARNING @ continue_notice 1 @
                    headers_line E majnum minnum relnum @ H5build_settings E @
                    (if H5_VERS_RELEASE E \<noteq> relnum \<and> (relnum = 0 \<or> H5_VERS_RELEASE E = 0)
                     then RELEASE_MISMATCH_WARNING @ continue_notice 1 @
                          headers_line E majnum minnum relnum
                     else []))
               (w\<lparr>disable_version_check := 1, checked := True\<rparr>))) \<and>
     (getenv E ''HDF5_DISABLE_VERSION_CHECK'' = Some ''2'' \<longrightarrow>
        H5_check_version E majnum minnum relnum w =
          Returned SUCCEED (w\<lparr>disable_version_check := 2, checked := True\<rparr>)) \<and>
     (\<forall>c cs. getenv E ''HDF5_DISABLE_VERSION_CHECK'' = Some (c # cs) \<and> isdigit c \<and>
          2 \<le> long_to_unsigned (fst (strtol c cs)) \<longrightarrow>
        H5_check_version E majnum minnum relnum w =
          Returned SUCCEED
            (w\<lparr>disable_version_check := long_to_unsigned (fst (strtol c cs)), checked := True\<rparr>))"
proof (intro conjI impI allI)
  let ?abort = "Aborted (fputs (VERSION_MISMATCH_WARNING @ disable_hint @
                     headers_line E majnum minnum relnum @ H5build_settings E @ ''Bye...\<newline>'') w)"
  assume a: "getenv E ''HDF5_DISABLE_VERSION_CHECK'' = None \<or>
      getenv E ''HDF5_DISABLE_VERSION_CHECK'' = Some ''0'' \<or>
      getenv E ''HDF5_DISABLE_VERSION_CHECK'' = Some [] \<or>
      (\<exists>c cs. getenv E ''HDF5_DISABLE_VERSION_CHECK'' = Some (c # cs) \<and> \<not> isdigit c)"
  have "read_disable_version_check E w = w"
  proof -
    consider (unset) "getenv E ''HDF5_DISABLE_VERSION_CHECK'' = None"
      | (zero) "getenv E ''HDF5_DISABLE_VERSION_CHECK'' = Some ''0''"
      | (other) v where "getenv E ''HDF5_DISABLE_VERSION_CHECK'' = Some v" "v = [] \<or> \<not> isdigit (hd v)"
      using a by auto
    then show ?thesis
    proof cases
      case unset
      then show ?thesis by (rule read_unset)
    next
      case zero
      show ?thesis
        using read_digit [OF zero strtol_one_digit(1), of w] same_level [OF assms(2)]
        by (simp add: strtol_one_digit(2))
    next
      case other
      then show ?thesis by (rule read_no_digit)
    qed
  qed
  then show "H5_check_version E majnum minnum relnum w = ?abort"
    by (rule mismatch_level_0 [OF assms])
next
  assume "getenv E ''HDF5_DISABLE_VERSION_CHECK'' = Some ''1''"
  then have "read_disable_version_check E w = w\<lparr>disable_version_check := 1\<rparr>"
    using read_digit [of E "CHR ''1''" "[]" w] by (simp add: strtol_one_digit)
  then show "H5_check_version E majnum minnum relnum w =
          Returned SUCCEED
            (fputs (VERSION_MISMATCH_WARNING @ continue_notice 1 @
                    headers_line E majnum minnum relnum @ H5build_settings E @
                    (if H5_VERS_RELEASE E \<noteq> relnum \<and> (relnum = 0 \<or> H5_VERS_RELEASE E = 0)
                     then RELEASE_MISMATCH_WARNING @ continue_notice 1 @
                          headers_line E majnum minnum relnum
                     else []))
               (w\<lparr>disable_version_check := 1, checked := True\<rparr>))"
    by (rule mismatch_level_1 [OF assms(1,3)])
next
  assume "getenv E ''HDF5_DISABLE_VERSION_CHECK'' = Some ''2''"
  then have "read_disable_version_check E w = w\<lparr>disable_version_check := 2\<rparr>"
    using read_digit [of E "CHR ''2''" "[]" w] by (simp add: strtol_one_digit)
  then show "H5_check_version E majnum minnum relnum w =
          Returned SUCCEED (w\<lparr>disable_version_check := 2, checked := True\<rparr>)"
    by (rule mismatch_level_2 [OF assms(1,3)]) simp
next
  fix c cs
  assume a: "getenv E ''HDF5_DISABLE_VERSION_CHECK'' = Some (c # cs) \<and> isdigit c \<and>
          2 \<le> long_to_unsigned (fst (strtol c cs))"
  then have "read_disable_version_check E w =
      w\<lparr>disable_version_check := long_to_unsigned (fst (strtol c cs))\<rparr>"
    using read_digit [of E c cs w] by simp
  then show "H5_check_version E majnum minnum relnum w =
          Returned SUCCEED
            (w\<lparr>disable_version_check := long_to_unsigned (fst (strtol c cs)), checked := True\<rparr>)"
    using a by (intro mismatch_level_2 [OF assms(1,3)]) simp_all
qed

theorem version_mismatch_by_level_witness:
  "H5_check_version quiet_env 2 14 6 (process_start 0) =
     Aborted ((process_start 0)\<lparr>stderr_out :=
        VERSION_MISMATCH_WARNING @ disable_hint @ headers_line quiet_env 2 14 6 @
        H5build_settings quiet_env @ ''Bye...\<newline>''\<rparr>) \<and>
   H5_check_version (override_env ''0'') 2 14 6 (process_start 0) =
     Aborted ((process_start 0)\<lparr>stderr_out :=
        VERSION_MISMATCH_WARNING @ disable_hint @ headers_line (override_env ''0'') 2 14 6 @
        H5build_settings (override_env ''0'') @ ''Bye...\<newline>''\<rparr>) \<and>
   H5_check_version (override_env ''1'') 2 14 6 (process_start 0) =
     Returned SUCCEED ((process_start 0)\<lparr>disable_version_check := 1, checked := True,
        stderr_out :=
          VERSION_MISMATCH_WARNING @ continue_notice 1 @ headers_line (override_env ''1'') 2 14 6 @
          H5build_settings (override_env ''1'')\<rparr>) \<and>
   H5_check_version (override_env ''2'') 2 14 6 (process_start 0) =
     Returned SUCCEED ((process_start 0)\<lparr>disable_version_check := 2, checked := True\<rparr>) \<and>
   stderr_out (final_world (H5_check_version (override_env ''2'') 2 14 6 (process_start 0))) = []"
proof -
  have p: "\<not> checked (process_start (0::nat))" "disable_version_check (process_start (0::nat)) = 0"
    by (simp_all add: process_start_def)
  have m: "H5_VERS_MAJOR quiet_env \<noteq> 2 \<or> H5_VERS_MINOR quiet_env \<noteq> 14"
    "H5_VERS_MAJOR (override_env v) \<noteq> 2 \<or> H5_VERS_MINOR (override_env v) \<noteq> 14" for v
    by (simp_all add: override_env_def quiet_env_def)
  have r: "H5_VERS_RELEASE (override_env v) = 6" for v
    by (simp add: override_env_def quiet_env_def)
  have g: "getenv quiet_env ''HDF5_DISABLE_VERSION_CHECK'' = None"
    "getenv (override_env v) ''HDF5_DISABLE_VERSION_CHECK'' = Some v" for v
    by (simp_all add: override_env_def quiet_env_def)
  have f: "fputs str (process_start (0::nat)) = (process_start 0)\<lparr>stderr_out := str\<rparr>" for str
    by (simp add: fputs_def process_start_def)
  have f1: "fputs str ((process_start (0::nat))\<lparr>disable_version_check := l, checked := True\<rparr>) =
      (process_start 0)\<lparr>disable_version_check := l, checked := True, stderr_out := str\<rparr>" for str l
    by (simp add: fputs_def process_start_def)
  note t0 = version_mismatch_by_level [OF p m(1), of 6]
  note tv = version_mismatch_by_level [OF p m(2), of _ 6]
  have a: "H5_check_version quiet_env 2 14 6 (process_start 0) =
     Aborted ((process_start 0)\<lparr>stderr_out :=
        VERSION_MISMATCH_WARNING @ disable_hint @ headers_line quiet_env 2 14 6 @
        H5build_settings quiet_env @ ''Bye...\<newline>''\<rparr>)"
    using t0 g(1) by (simp add: f)
  have b: "H5_check_version (override_env ''0'') 2 14 6 (process_start 0) =
     Aborted ((process_start 0)\<lparr>stderr_out :=
        VERSION_MISMATCH_WARNING @ disable_hint @ headers_line (override_env ''0'') 2 14 6 @
        H5build_settings (override_env ''0'') @ ''Bye...\<newline>''\<rparr>)"
    using tv [of "''0''"] g(2) [of "''0''"] by (simp add: f)
  have c: "H5_check_version (override_env ''1'') 2 14 6 (process_start 0) =
     Returned SUCCEED ((process_start 0)\<lparr>disable_version_check := 1, checked := True,
        stderr_out :=
          VERSION_MISMATCH_WARNING @ continue_notice 1 @ headers_line (override_env ''1'') 2 14 6 @
          H5build_settings (override_env ''1'')\<rparr>)"
    using tv [of "''1''"] g(2) [of "''1''"] by (simp add: f1 r)
  have d: "H5_check_version (override_env ''2'') 2 14 6 (process_start 0) =
     Returned SUCCEED ((process_start 0)\<lparr>disable_version_check := 2, checked := True\<rparr>)"
    using tv [of "''2''"] g(2) [of "''2''"] by simp
  have e: "stderr_out (final_world (H5_check_version (override_env ''2'') 2 14 6 (process_start 0))) = []"
    unfolding d by (simp add: process_start_def)
  show ?thesis
    using a b c d e by (intro conjI)
qed
section \<open>The report of a shutdown that does not converge\<close>





























section \<open>A run in which the package that is stuck is not named\<close>














end
